theory Spec2Isabelle
  imports Main "HOL-Library.Word" "HOL-Library.Sublist"
begin

section \<open>JavaScript strings\<close>

text \<open>
  A JavaScript string is a sequence of UTF-16 code units.  The program looks at
  code units only through \<^verbatim>\<open>trim\<close>, \<^verbatim>\<open>startsWith\<close>, \<^verbatim>\<open>endsWith\<close>, the regular
  expression \<^verbatim>\<open>/}\s*{/g\<close>, truthiness (emptiness) and concatenation.
\<close>

type_synonym jsstring = "16 word list"

text \<open>String literals of the source, written as Isabelle strings (ASCII).\<close>

definition lit :: "string \<Rightarrow> jsstring" where
  "lit s = map of_char s"

text \<open>
  ECMAScript \<^verbatim>\<open>WhiteSpace\<close> and \<^verbatim>\<open>LineTerminator\<close> code points: what
  \<^verbatim>\<open>String.prototype.trim\<close> strips and what \<^verbatim>\<open>\s\<close> matches (TAB, LF, VT, FF, CR,
  SP, NBSP, U+1680, U+2000..U+200A, U+2028, U+2029, U+202F, U+205F, U+3000, U+FEFF).
\<close>

definition isWhiteSpace :: "16 word \<Rightarrow> bool" where
  "isWhiteSpace c \<longleftrightarrow>
     c \<in> set [0x09, 0x0A, 0x0B, 0x0C, 0x0D, 0x20, 0xA0, 0x1680,
               0x2028, 0x2029, 0x202F, 0x205F, 0x3000, 0xFEFF]
     \<or> (0x2000 \<le> c \<and> c \<le> 0x200A)"

definition trim :: "jsstring \<Rightarrow> jsstring" where
  "trim s = rev (dropWhile isWhiteSpace (rev (dropWhile isWhiteSpace s)))"

definition startsWith :: "jsstring \<Rightarrow> jsstring \<Rightarrow> bool" where
  "startsWith s p = prefix p s"

definition endsWith :: "jsstring \<Rightarrow> jsstring \<Rightarrow> bool" where
  "endsWith s p = suffix p s"

section \<open>Preprocessing of concatenated or single JSON objects\<close>

text \<open>
  \<^verbatim>\<open>processedText.replace(/}\s*{/g, "},{")\<close>: the global replace scans from the
  left; at a closing brace it skips the white space that follows (greedy \<^verbatim>\<open>\s*\<close>;
  no backtracking can help, an opening brace is not white space) and, when an
  opening brace comes next, emits \<^verbatim>\<open>},{\<close> and resumes behind that brace.
  Anywhere else the code unit is copied and the scan moves on by one.
\<close>

function replaceSeparators :: "jsstring \<Rightarrow> jsstring" where
  "replaceSeparators [] = []"
| "replaceSeparators (c # cs) =
     (if c = 0x7D then
        (case dropWhile isWhiteSpace cs of
           [] \<Rightarrow> c # replaceSeparators cs
         | d # rest \<Rightarrow>
             if d = 0x7B then lit ''},{'' @ replaceSeparators rest
             else c # replaceSeparators cs)
      else c # replaceSeparators cs)"
  by pat_completeness auto
termination
proof (relation "measure length")
  fix c :: "16 word" and cs :: jsstring and d rest
  assume "dropWhile isWhiteSpace cs = d # rest"
  then have "length (d # rest) \<le> length cs"
    using length_dropWhile_le [of isWhiteSpace cs] by simp
  then show "(rest, c # cs) \<in> measure length" by simp
qed simp_all

text \<open>
  The preprocessing block of \<^verbatim>\<open>processChatData\<close> (\<^verbatim>\<open>reader.onload\<close> in
  \<^verbatim>\<open>script.js\<close>), applied to the trimmed text:
  \<^verbatim>\<open>
    const isLikelyValidArray =
      processedText.startsWith("[") && processedText.endsWith("]");
    if (!isLikelyValidArray) {
      processedText = processedText.replace(/}\s*{/g, "},{");
      processedText = "[" + processedText + "]";
    }
  \<close>
\<close>

definition isLikelyValidArray :: "jsstring \<Rightarrow> bool" where
  "isLikelyValidArray processedText \<longleftrightarrow>
     startsWith processedText (lit ''['') \<and> endsWith processedText (lit '']'')"

definition preprocess :: "jsstring \<Rightarrow> jsstring" where
  "preprocess processedText =
     (if \<not> isLikelyValidArray processedText
      then lit ''['' @ replaceSeparators processedText @ lit '']''
      else processedText)"

section \<open>Values of the parsed chat dump\<close>

text \<open>
  What \<^verbatim>\<open>JSON.parse\<close> returns.  An object is the association list of its own
  properties (the first binding of a key is the one a property read finds).  Of a
  number the program observes two things only, whether it is truthy (neither zero
  nor NaN) and what \<^verbatim>\<open>ToString\<close> makes of it; \<open>JNum\<close> carries both, so that no
  floating-point arithmetic is needed.
\<close>

datatype json =
    JNull
  | JBool bool
  | JNum bool jsstring
  | JStr jsstring
  | JArr "json list"
  | JObj "(jsstring \<times> json) list"

text \<open>A JavaScript value of this program: \<open>None\<close> is \<^verbatim>\<open>undefined\<close>.\<close>

type_synonym jsval = "json option"

fun truthy :: "jsval \<Rightarrow> bool" where
  "truthy None = False"
| "truthy (Some JNull) = False"
| "truthy (Some (JBool b)) = b"
| "truthy (Some (JNum nonzero shown)) = nonzero"
| "truthy (Some (JStr s)) = (s \<noteq> [])"
| "truthy (Some (JArr xs)) = True"
| "truthy (Some (JObj kvs)) = True"

text \<open>\<^verbatim>\<open>a || b\<close>\<close>

definition orElse :: "jsval \<Rightarrow> jsval \<Rightarrow> jsval" where
  "orElse a b = (if truthy a then a else b)"

text \<open>
  A read of a named property from a value that is neither \<^verbatim>\<open>null\<close> nor
  \<^verbatim>\<open>undefined\<close>.  The names the program reads (\<^verbatim>\<open>actions\<close>, \<^verbatim>\<open>item\<close>, \<^verbatim>\<open>text\<close>,
  \<^verbatim>\<open>emoji\<close>, \<^verbatim>\<open>url\<close>, ...) are no properties of strings, numbers, booleans, arrays
  or of \<^verbatim>\<open>Object.prototype\<close>, so only an object's own properties answer.
\<close>

fun getp :: "json \<Rightarrow> jsstring \<Rightarrow> jsval" where
  "getp (JObj kvs) k = map_of kvs k"
| "getp _ k = None"

text \<open>
  The indexed read \<^verbatim>\<open>v[0]\<close>: the first element of an array, the first code unit
  of a string (as a string), the property \<^verbatim>\<open>"0"\<close> of an object.
\<close>

fun at0 :: "json \<Rightarrow> jsval" where
  "at0 (JArr xs) = (case xs of [] \<Rightarrow> None | x # _ \<Rightarrow> Some x)"
| "at0 (JStr s) = (case s of [] \<Rightarrow> None | c # _ \<Rightarrow> Some (JStr [c]))"
| "at0 (JObj kvs) = map_of kvs (lit ''0'')"
| "at0 _ = None"

text \<open>Optional chaining, \<^verbatim>\<open>v?.k\<close> and \<^verbatim>\<open>v?.[0]\<close>: \<^verbatim>\<open>undefined\<close> on a nullish receiver.\<close>

fun qdot :: "jsval \<Rightarrow> string \<Rightarrow> jsval" where
  "qdot None k = None"
| "qdot (Some JNull) k = None"
| "qdot (Some v) k = getp v (lit k)"

fun qat0 :: "jsval \<Rightarrow> jsval" where
  "qat0 None = None"
| "qat0 (Some JNull) = None"
| "qat0 (Some v) = at0 v"

text \<open>
  The exceptions and failures of a run.  \<open>EmptyData\<close> is the early return of
  \<^verbatim>\<open>processChatData\<close> on empty text; the others are thrown and caught by its
  \<^verbatim>\<open>catch\<close> block.  All of them end in \<^verbatim>\<open>displayError\<close>, which replaces the whole
  chat container by one error paragraph.
\<close>

datatype failure =
    EmptyData
  | SyntaxError jsstring
  | TypeError
  | InternalError jsstring

text \<open>Sequencing: an exception ends what follows.\<close>

definition bindF :: "failure + 'a \<Rightarrow> ('a \<Rightarrow> failure + 'b) \<Rightarrow> failure + 'b" where
  "bindF m f = (case m of Inl e \<Rightarrow> Inl e | Inr x \<Rightarrow> f x)"

text \<open>
  The plain read \<^verbatim>\<open>v.k\<close>, which throws a \<^verbatim>\<open>TypeError\<close> on \<^verbatim>\<open>null\<close> and
  \<^verbatim>\<open>undefined\<close>.
\<close>

fun dot :: "jsval \<Rightarrow> string \<Rightarrow> failure + jsval" where
  "dot None k = Inl TypeError"
| "dot (Some JNull) k = Inl TypeError"
| "dot (Some v) k = Inr (getp v (lit k))"

text \<open>
  The plain read at the places where the source has just tested the receiver for
  truthiness (\<^verbatim>\<open>if (addChatItemAction) { ... addChatItemAction.item\<close>): there it
  cannot throw, see \<open>dot_truthy\<close> below, and the model uses \<open>rd\<close>.
\<close>

definition rd :: "jsval \<Rightarrow> string \<Rightarrow> jsval" where
  "rd v k = qdot v k"

text \<open>\<^verbatim>\<open>Array.prototype.join\<close> on strings.\<close>

fun joinWith :: "jsstring \<Rightarrow> jsstring list \<Rightarrow> jsstring" where
  "joinWith sep [] = []"
| "joinWith sep [x] = x"
| "joinWith sep (x # y # ys) = x @ sep @ joinWith sep (y # ys)"

text \<open>The results of a list of computations, in order; the first exception wins.\<close>

fun collect :: "(failure + 'a) list \<Rightarrow> failure + 'a list" where
  "collect [] = Inr []"
| "collect (m # ms) = bindF m (\<lambda>x. bindF (collect ms) (\<lambda>xs. Inr (x # xs)))"

text \<open>
  \<^verbatim>\<open>ToString\<close>, applied by template literals and by the DOM setters
  (\<^verbatim>\<open>textContent\<close>, \<^verbatim>\<open>src\<close>, \<^verbatim>\<open>alt\<close>, \<^verbatim>\<open>title\<close>, \<^verbatim>\<open>createTextNode\<close>).
  An array joins its elements with a comma, \<^verbatim>\<open>null\<close> elements as the empty
  string.  An object is converted by its \<^verbatim>\<open>toString\<close> method: a parsed object
  inherits the one of \<^verbatim>\<open>Object.prototype\<close>, which gives \<^verbatim>\<open>[object Object]\<close>,
  unless it has an own property of that name.  Such a property holds parsed data,
  which is not callable, and \<^verbatim>\<open>valueOf\<close> (own and not callable, or inherited and
  returning the object) does not help: the conversion throws a \<^verbatim>\<open>TypeError\<close>.
\<close>

fun toStr :: "json \<Rightarrow> failure + jsstring" where
  "toStr JNull = Inr (lit ''null'')"
| "toStr (JBool b) = Inr (if b then lit ''true'' else lit ''false'')"
| "toStr (JNum nonzero shown) = Inr shown"
| "toStr (JStr s) = Inr s"
| "toStr (JArr xs) =
     bindF (collect (map (\<lambda>x. if x = JNull then Inr [] else toStr x) xs))
       (\<lambda>parts. Inr (joinWith (lit '','') parts))"
| "toStr (JObj kvs) =
     (if map_of kvs (lit ''toString'') \<noteq> None then Inl TypeError
      else Inr (lit ''[object Object]''))"

fun toString :: "jsval \<Rightarrow> failure + jsstring" where
  "toString None = Inr (lit ''undefined'')"
| "toString (Some v) = toStr v"

text \<open>Decimal digits of a counter, as \<^verbatim>\<open>${messageCount}\<close> prints it.\<close>

function showNat :: "nat \<Rightarrow> jsstring" where
  "showNat n = (if n < 10 then [0x30 + of_nat n] else showNat (n div 10) @ [0x30 + of_nat (n mod 10)])"
  by pat_completeness auto
termination
  by (relation "measure id") auto

declare showNat.simps [simp del]

section \<open>What the browser supplies\<close>

text \<open>
  Two operations of the host environment decide what the program does and are not
  part of the repository: \<^verbatim>\<open>JSON.parse\<close> (\<open>Inl\<close> is the message of the
  \<^verbatim>\<open>SyntaxError\<close> it throws) and the \<^verbatim>\<open>src\<close> getter of an image element:
  \<open>imgSrc h s\<close> is what \<^verbatim>\<open>img.src\<close> reads after \<^verbatim>\<open>img.src = s\<close>.  The getter
  reflects the attribute as a URL: it returns the attribute's value resolved against
  the URL of the document, and the value itself when that fails.  On a page loaded
  over \<^verbatim>\<open>http\<close>, \<^verbatim>\<open>https\<close> or \<^verbatim>\<open>file\<close> the empty string resolves to the URL of
  the page, so there \<open>imgSrc h [] \<noteq> []\<close>; in a document without a hierarchical URL
  (\<^verbatim>\<open>about:blank\<close>) it reads back empty.
\<close>

record host =
  JSON_parse :: "jsstring \<Rightarrow> jsstring + json"
  imgSrc :: "jsstring \<Rightarrow> jsstring"

section \<open>The elements the program builds\<close>

text \<open>
  The children of a message body: a text node, the \<^verbatim>\<open>img.chat-emoji\<close> of an emoji
  (its \<^verbatim>\<open>src\<close> as assigned, its \<^verbatim>\<open>alt\<close> and \<^verbatim>\<open>title\<close>), or a \<^verbatim>\<open>span\<close> with its
  class and children.
\<close>

datatype node =
    TextNode jsstring
  | EmojiImg jsstring jsstring
  | Span jsstring "node list"

record badge_img =
  badgeSrc :: jsstring
  badgeAlt :: jsstring

text \<open>
  One \<^verbatim>\<open>div.chat-message\<close>: the extra class, the author photo, the header
  (timestamp, author name, badge images) and the children of the body.
\<close>

record chat_message =
  messageTypeClass :: jsstring
  authorPhotoUrl :: jsstring
  timestampText :: jsstring
  authorNameText :: jsstring
  badgeImgs :: "badge_img list"
  bodyDiv :: "node list"

text \<open>A child of the chat container: a paragraph (class, text) or a message.\<close>

datatype element =
    Paragraph jsstring jsstring
  | ChatMessage chat_message

text \<open>\<^verbatim>\<open>el.textContent = s\<close> on an element: one text node, none for the empty string.\<close>

definition setTextContent :: "jsstring \<Rightarrow> node list" where
  "setTextContent s = (if s = [] then [] else [TextNode s])"

definition isArray :: "jsval \<Rightarrow> bool" where
  "isArray v = (case v of Some (JArr xs) \<Rightarrow> True | _ \<Rightarrow> False)"

definition elements :: "jsval \<Rightarrow> json list" where
  "elements v = (case v of Some (JArr xs) \<Rightarrow> xs | _ \<Rightarrow> [])"

section \<open>processMessageRuns\<close>

text \<open>
  The callback of \<^verbatim>\<open>runs.forEach\<close>: the nodes one run appends to the target.
  \<^verbatim>\<open>run.text\<close> is a plain read, so a \<^verbatim>\<open>null\<close> element of the array throws.
  \<^verbatim>\<open>createTextNode\<close>, the setters of \<^verbatim>\<open>src\<close>, \<^verbatim>\<open>alt\<close> and \<^verbatim>\<open>title\<close> and the
  template literal convert their argument with \<^verbatim>\<open>ToString\<close>, in this order.
  \<^verbatim>\<open>
    if (run.text) {
      targetElement.appendChild(document.createTextNode(run.text));
    } else if (run.emoji) {
      const emoji = run.emoji;
      img.src = emoji.image?.thumbnails?.[0]?.url || "";
      const altText = emoji.accessibility?.accessibilityData?.label ||
        emoji.shortcuts?.[0] || "emoji";
      img.alt = altText; img.title = altText;
      if (img.src) { targetElement.appendChild(img); }
      else { targetElement.appendChild(document.createTextNode(`[${altText}]`)); }
    }
  \<close>
\<close>

definition processRun :: "host \<Rightarrow> json \<Rightarrow> failure + node list" where
  "processRun h run =
     bindF (dot (Some run) ''text'') (\<lambda>text.
       if truthy text then bindF (toString text) (\<lambda>data. Inr [TextNode data])
       else
         let emoji = rd (Some run) ''emoji'' in
         if truthy emoji then
           bindF (toString (orElse
                    (qdot (qat0 (qdot (rd emoji ''image'') ''thumbnails'')) ''url'')
                    (Some (JStr [])))) (\<lambda>src.
           bindF (toString (orElse (orElse
                    (qdot (qdot (rd emoji ''accessibility'') ''accessibilityData'') ''label'')
                    (qat0 (rd emoji ''shortcuts'')))
                    (Some (JStr (lit ''emoji''))))) (\<lambda>altText.
             if imgSrc h src \<noteq> [] then Inr [EmojiImg src altText]
             else Inr [TextNode (lit ''['' @ altText @ lit '']'')]))
         else Inr [])"

fun forEachRun :: "host \<Rightarrow> json list \<Rightarrow> node list \<Rightarrow> failure + node list" where
  "forEachRun h [] targetElement = Inr targetElement"
| "forEachRun h (run # runs) targetElement =
     bindF (processRun h run) (\<lambda>ns. forEachRun h runs (targetElement @ ns))"

text \<open>
  \<^verbatim>\<open>processMessageRuns(runs, targetElement)\<close>, on the children of the target:
  \<^verbatim>\<open>if (!runs || !Array.isArray(runs)) { targetElement.textContent = ""; return; }\<close>
  empties the target.
\<close>

definition processMessageRuns :: "host \<Rightarrow> jsval \<Rightarrow> node list \<Rightarrow> failure + node list" where
  "processMessageRuns h runs targetElement =
     (if \<not> truthy runs \<or> \<not> isArray runs then Inr []
      else forEachRun h (elements runs) targetElement)"

section \<open>displayChatMessages\<close>

text \<open>
  The callback of \<^verbatim>\<open>authorBadges.forEach\<close>: the badge image one entry appends to
  the header.
  \<^verbatim>\<open>
    const badgeRenderer = badgeItem?.liveChatAuthorBadgeRenderer;
    if (badgeRenderer?.customThumbnail?.thumbnails?.[0]?.url) {
      badgeImg.src = badgeRenderer.customThumbnail.thumbnails[0].url;
      badgeImg.alt = badgeRenderer.tooltip || "Badge";
      badgeImg.title = badgeRenderer.tooltip || "Badge";
      headerDiv.appendChild(badgeImg);
    }
  \<close>
  Inside the test the plain reads give the value the optional chain has just given.
  The setters of \<^verbatim>\<open>src\<close>, \<^verbatim>\<open>alt\<close> and \<^verbatim>\<open>title\<close> convert with \<^verbatim>\<open>ToString\<close>.
\<close>

definition badgeOf :: "json \<Rightarrow> failure + badge_img list" where
  "badgeOf badgeItem =
     (let badgeRenderer = qdot (Some badgeItem) ''liveChatAuthorBadgeRenderer'';
          url = qdot (qat0 (qdot (qdot badgeRenderer ''customThumbnail'') ''thumbnails'')) ''url''
      in if truthy url
         then bindF (toString url) (\<lambda>src.
              bindF (toString (orElse (rd badgeRenderer ''tooltip'')
                                      (Some (JStr (lit ''Badge''))))) (\<lambda>alt.
                Inr [\<lparr>badgeSrc = src, badgeAlt = alt\<rparr>]))
         else Inr [])"

fun forEachBadge :: "json list \<Rightarrow> badge_img list \<Rightarrow> failure + badge_img list" where
  "forEachBadge [] headerDiv = Inr headerDiv"
| "forEachBadge (badgeItem # badgeItems) headerDiv =
     bindF (badgeOf badgeItem) (\<lambda>imgs. forEachBadge badgeItems (headerDiv @ imgs))"

text \<open>
  The badge images of the header.  \<^verbatim>\<open>rendererData.authorBadges || []\<close> is
  iterated with \<^verbatim>\<open>forEach\<close>, which only an array has: any other truthy value
  throws a \<^verbatim>\<open>TypeError\<close>.
\<close>

definition headerBadges :: "jsval \<Rightarrow> failure + badge_img list" where
  "headerBadges rendererData =
     (let authorBadges = orElse (rd rendererData ''authorBadges'') (Some (JArr []))
      in if isArray authorBadges then forEachBadge (elements authorBadges) []
         else Inl TypeError)"

text \<open>
  The children of \<^verbatim>\<open>div.message-body\<close>:
  \<^verbatim>\<open>
    if (textRenderer) {
      processMessageRuns(textRenderer.message?.runs, bodyDiv);
    } else if (memberRenderer) {
      if (memberRenderer.headerPrimaryText?.runs) {
        processMessageRuns(memberRenderer.headerPrimaryText.runs, primaryHeader);
        bodyDiv.appendChild(primaryHeader);
      }
      if (memberRenderer.headerSubtext?.simpleText) {
        subHeader.textContent = memberRenderer.headerSubtext.simpleText;
        bodyDiv.appendChild(subHeader);
      }
      if (memberRenderer.message?.runs) {
        processMessageRuns(memberRenderer.message.runs, bodyDiv);
      }
    }
  \<close>
\<close>

definition messageBody :: "host \<Rightarrow> jsval \<Rightarrow> jsval \<Rightarrow> failure + node list" where
  "messageBody h textRenderer memberRenderer =
     (if truthy textRenderer then
        processMessageRuns h (qdot (rd textRenderer ''message'') ''runs'') []
      else if truthy memberRenderer then
        bindF (if truthy (qdot (rd memberRenderer ''headerPrimaryText'') ''runs'')
               then bindF (processMessageRuns h
                             (qdot (rd memberRenderer ''headerPrimaryText'') ''runs'') [])
                          (\<lambda>primaryHeader.
                             Inr [Span (lit ''membership-header-primary'') primaryHeader])
               else Inr [])
          (\<lambda>body1.
             bindF (if truthy (qdot (rd memberRenderer ''headerSubtext'') ''simpleText'')
                    then bindF (toString
                                  (qdot (rd memberRenderer ''headerSubtext'') ''simpleText''))
                               (\<lambda>subText.
                                  Inr (body1 @ [Span (lit ''membership-header-subtext'')
                                                  (setTextContent subText)]))
                    else Inr body1)
               (\<lambda>body2.
                  if truthy (qdot (rd memberRenderer ''message'') ''runs'')
                  then processMessageRuns h (qdot (rd memberRenderer ''message'') ''runs'') body2
                  else Inr body2))
      else Inr [])"

text \<open>
  The message element of a recognised item, from the common data extraction to
  the finished \<^verbatim>\<open>div.chat-message\<close>:
  \<^verbatim>\<open>
    const authorPhotoUrl =
      rendererData.authorPhoto?.thumbnails?.[0]?.url || "placeholder.png";
    const timestampText = rendererData.timestampText?.simpleText || "[no time]";
    const authorNameText = rendererData.authorName?.simpleText || "[unknown author]";
    const authorBadges = rendererData.authorBadges || [];
  \<close>
  The values are converted with \<^verbatim>\<open>ToString\<close> when they are assigned
  (\<^verbatim>\<open>authorImg.src\<close>, then \<^verbatim>\<open>timeSpan.textContent\<close>, then
  \<^verbatim>\<open>nameSpan.textContent\<close>); after that the badges are iterated and then the body is
  built, so the exceptions come in this order.
\<close>

definition buildMessage ::
  "host \<Rightarrow> jsval \<Rightarrow> jsstring \<Rightarrow> jsval \<Rightarrow> jsval \<Rightarrow> failure + chat_message" where
  "buildMessage h rendererData typeClass textRenderer memberRenderer =
     (let photoValue = orElse
            (qdot (qat0 (qdot (rd rendererData ''authorPhoto'') ''thumbnails'')) ''url'')
            (Some (JStr (lit ''placeholder.png'')));
          timeValue = orElse
            (qdot (rd rendererData ''timestampText'') ''simpleText'')
            (Some (JStr (lit ''[no time]'')));
          nameValue = orElse
            (qdot (rd rendererData ''authorName'') ''simpleText'')
            (Some (JStr (lit ''[unknown author]'')))
      in bindF (toString photoValue) (\<lambda>photo.
         bindF (toString timeValue) (\<lambda>time.
         bindF (toString nameValue) (\<lambda>name.
         bindF (headerBadges rendererData) (\<lambda>badges.
         bindF (messageBody h textRenderer memberRenderer) (\<lambda>body.
           Inr \<lparr>messageTypeClass = typeClass, authorPhotoUrl = photo,
                timestampText = time, authorNameText = name,
                badgeImgs = badges, bodyDiv = body\<rparr>))))))"

text \<open>The four counters of \<^verbatim>\<open>displayChatMessages\<close> and the chat container.\<close>

record loop_state =
  messageCount :: nat
  skippedTickerCount :: nat
  skippedOtherActionCount :: nat
  skippedOtherItemCount :: nat
  chatContainer :: "element list"

definition initialState :: loop_state where
  "initialState = \<lparr>messageCount = 0, skippedTickerCount = 0, skippedOtherActionCount = 0,
                    skippedOtherItemCount = 0, chatContainer = []\<rparr>"

text \<open>
  The callback of \<^verbatim>\<open>actions.forEach\<close>.  An action is an element of the flattened
  array; \<^verbatim>\<open>action?.addChatItemAction\<close> and \<^verbatim>\<open>action?.addLiveChatTickerItemAction\<close>
  are optional reads.  \<^verbatim>\<open>messageCount++\<close> comes before the element is built; an
  exception while building it leaves the loop, and the counters with it.
\<close>

definition processAction :: "host \<Rightarrow> loop_state \<Rightarrow> jsval \<Rightarrow> failure + loop_state" where
  "processAction h st action =
     (let addChatItemAction = qdot action ''addChatItemAction'';
          addTickerItemAction = qdot action ''addLiveChatTickerItemAction''
      in
      if truthy addChatItemAction then
        let item = rd addChatItemAction ''item'' in
        if \<not> truthy item then
          Inr (st\<lparr>skippedOtherActionCount := skippedOtherActionCount st + 1\<rparr>)
        else
          let textRenderer = rd item ''liveChatTextMessageRenderer'';
              memberRenderer = rd item ''liveChatMembershipItemRenderer''
          in
          if truthy textRenderer then
            bindF (buildMessage h textRenderer [] textRenderer memberRenderer) (\<lambda>m.
              Inr (st\<lparr>messageCount := messageCount st + 1,
                       chatContainer := chatContainer st @ [ChatMessage m]\<rparr>))
          else if truthy memberRenderer then
            bindF (buildMessage h memberRenderer (lit ''chat-membership-message'')
                     textRenderer memberRenderer) (\<lambda>m.
              Inr (st\<lparr>messageCount := messageCount st + 1,
                       chatContainer := chatContainer st @ [ChatMessage m]\<rparr>))
          else
            Inr (st\<lparr>skippedOtherItemCount := skippedOtherItemCount st + 1\<rparr>)
      else if truthy addTickerItemAction then
        Inr (st\<lparr>skippedTickerCount := skippedTickerCount st + 1\<rparr>)
      else
        Inr (st\<lparr>skippedOtherActionCount := skippedOtherActionCount st + 1\<rparr>))"

fun forEachAction :: "host \<Rightarrow> loop_state \<Rightarrow> jsval list \<Rightarrow> failure + loop_state" where
  "forEachAction h st [] = Inr st"
| "forEachAction h st (action # actions) =
     bindF (processAction h st action) (\<lambda>st'. forEachAction h st' actions)"

text \<open>
  The source exists in two revisions that differ in their texts only:
  \<^verbatim>\<open>script.js\<close>, which reads a file, and the later revision with the URL loader
  (\<^verbatim>\<open>processChatData\<close>).  The summary line is
  \<^verbatim>\<open>
    if (messageCount === 0 && actions.length > 0) {
      summaryText = `Processed ${actions.length} actions, but found no displayable messages.`;
    } else if (actions.length === 0) {
      summaryText = `No chat actions found in the file data.`;
    } else {
      summaryText = `Displayed ${messageCount} messages.`;
    }
  \<close>
  in \<^verbatim>\<open>script.js\<close> and
  \<^verbatim>\<open>
    if (messageCount === 0 &&
        (skippedTickerCount > 0 || skippedOtherActionCount > 0 || skippedOtherItemCount > 0)) {
      summaryText = `Processed data, but found no displayable messages.`;
    } else if (messageCount === 0 && actions.length === 0) {
      summaryText = `No chat actions found in the provided data.`;
    } else {
      summaryText = `Displayed ${messageCount} messages.`;
    }
  \<close>
  in the later revision.
\<close>

datatype revision = ScriptJs | UrlLoader

definition noActionsText :: "revision \<Rightarrow> jsstring" where
  "noActionsText rv =
     (case rv of
        ScriptJs \<Rightarrow> lit ''No chat actions found in the file data.''
      | UrlLoader \<Rightarrow> lit ''No chat actions found in the provided data.'')"

definition summaryLead :: "revision \<Rightarrow> loop_state \<Rightarrow> nat \<Rightarrow> jsstring" where
  "summaryLead rv st actionsLength =
     (case rv of
        ScriptJs \<Rightarrow>
          if messageCount st = 0 \<and> actionsLength > 0 then
            lit ''Processed '' @ showNat actionsLength
              @ lit '' actions, but found no displayable messages.''
          else if actionsLength = 0 then lit ''No chat actions found in the file data.''
          else lit ''Displayed '' @ showNat (messageCount st) @ lit '' messages.''
      | UrlLoader \<Rightarrow>
          if messageCount st = 0 \<and>
             (skippedTickerCount st > 0 \<or> skippedOtherActionCount st > 0
              \<or> skippedOtherItemCount st > 0) then
            lit ''Processed data, but found no displayable messages.''
          else if messageCount st = 0 \<and> actionsLength = 0 then
            lit ''No chat actions found in the provided data.''
          else lit ''Displayed '' @ showNat (messageCount st) @ lit '' messages.'')"

text \<open>
  \<^verbatim>\<open>
    const skippedMessages = [];
    if (skippedTickerCount > 0) skippedMessages.push(`${skippedTickerCount} ticker`);
    if (skippedOtherItemCount > 0)
      skippedMessages.push(`${skippedOtherItemCount} unhandled item types`);
    if (skippedOtherActionCount > 0)
      skippedMessages.push(`${skippedOtherActionCount} unhandled action types`);
    if (skippedMessages.length > 0) {
      summaryText += ` (Skipped: ${skippedMessages.join(", ")})`;
    }
  \<close>
\<close>

definition skippedMessages :: "loop_state \<Rightarrow> jsstring list" where
  "skippedMessages st =
     (if skippedTickerCount st > 0
      then [showNat (skippedTickerCount st) @ lit '' ticker''] else [])
     @ (if skippedOtherItemCount st > 0
        then [showNat (skippedOtherItemCount st) @ lit '' unhandled item types''] else [])
     @ (if skippedOtherActionCount st > 0
        then [showNat (skippedOtherActionCount st) @ lit '' unhandled action types''] else [])"

definition summaryText :: "revision \<Rightarrow> loop_state \<Rightarrow> nat \<Rightarrow> jsstring" where
  "summaryText rv st actionsLength =
     summaryLead rv st actionsLength
     @ (if length (skippedMessages st) > 0
        then lit '' (Skipped: '' @ joinWith (lit '', '') (skippedMessages st) @ lit '')''
        else [])"

text \<open>
  \<^verbatim>\<open>displayChatMessages(actions)\<close>: the children of the chat container when it
  returns.  With no action it shows one paragraph and returns early; otherwise the
  summary paragraph is prepended to the messages the loop has appended.
\<close>

definition displayChatMessages :: "revision \<Rightarrow> host \<Rightarrow> jsval list \<Rightarrow> failure + element list" where
  "displayChatMessages rv h actions =
     (if length actions = 0 then Inr [Paragraph [] (noActionsText rv)]
      else bindF (forEachAction h initialState actions) (\<lambda>st.
             Inr (Paragraph [] (summaryText rv st (length actions)) # chatContainer st)))"

section \<open>processChatData\<close>

text \<open>
  The callback of \<^verbatim>\<open>chatDataArray.flatMap\<close>:
  \<^verbatim>\<open>
    (item) =>
      item?.replayChatItemAction?.actions ||
      item?.continuationContents?.liveChatContinuation?.actions ||
      []
  \<close>
\<close>

definition actionsOf :: "json \<Rightarrow> jsval" where
  "actionsOf item =
     orElse (orElse
       (qdot (qdot (Some item) ''replayChatItemAction'') ''actions'')
       (qdot (qdot (qdot (Some item) ''continuationContents'') ''liveChatContinuation'')
             ''actions''))
       (Some (JArr []))"

text \<open>
  \<^verbatim>\<open>flatMap\<close> flattens one level: an array returned by the callback contributes
  its elements, any other value contributes itself.
\<close>

definition flatten1 :: "jsval \<Rightarrow> jsval list" where
  "flatten1 v = (case v of Some (JArr ys) \<Rightarrow> map Some ys | _ \<Rightarrow> [v])"

definition flatMapActions :: "json list \<Rightarrow> jsval list" where
  "flatMapActions chatDataArray = concat (map (\<lambda>item. flatten1 (actionsOf item)) chatDataArray)"

text \<open>
  What follows \<^verbatim>\<open>JSON.parse\<close>.  The log line reads \<^verbatim>\<open>chatDataArray.length\<close>, which
  throws on \<^verbatim>\<open>null\<close>; a value that is not an array raises the internal error.  The
  second safeguard, \<^verbatim>\<open>!Array.isArray(chatActions)\<close>, tests the result of \<^verbatim>\<open>flatMap\<close>,
  which is an array.
\<close>

definition afterParse :: "revision \<Rightarrow> host \<Rightarrow> jsstring + json \<Rightarrow> failure + element list" where
  "afterParse rv h parsed =
     (case parsed of
        Inl message \<Rightarrow> Inl (SyntaxError message)
      | Inr chatDataArray \<Rightarrow>
          if chatDataArray = JNull then Inl TypeError
          else if isArray (Some chatDataArray) then
            displayChatMessages rv h (flatMapActions (elements (Some chatDataArray)))
          else Inl (InternalError (lit ''Internal error: Processed data is not an array.'')))"

text \<open>
  \<^verbatim>\<open>processChatData(rawText)\<close> (the body of \<^verbatim>\<open>reader.onload\<close> in \<^verbatim>\<open>script.js\<close>):
  \<open>Inr\<close> is the content of the chat container after a successful run, \<open>Inl\<close> the
  failure whose error paragraph replaces it.
\<close>

definition processChatData :: "revision \<Rightarrow> host \<Rightarrow> jsstring \<Rightarrow> failure + element list" where
  "processChatData rv h rawText =
     (let processedText = trim rawText in
      if processedText = [] then Inl EmptyData
      else afterParse rv h (JSON_parse h (preprocess processedText)))"

text \<open>The message elements on the page at the end of a run.\<close>

fun messagesOf :: "failure + element list \<Rightarrow> chat_message list" where
  "messagesOf (Inl e) = []"
| "messagesOf (Inr els) = concat (map (\<lambda>el. case el of ChatMessage m \<Rightarrow> [m] | _ \<Rightarrow> []) els)"

section \<open>The categories of the specification\<close>

text \<open>
  The four categories in the words of the specification: an add-chat-item action
  whose item is missing or null is an unhandled action, a text-message or
  membership item is displayed, any other item is an unhandled item, a ticker
  action is skipped as ticker, any other action is an unhandled action.
\<close>

datatype category = Displayed | SkippedTicker | SkippedUnhandledItem | SkippedUnhandledAction

definition spec_category :: "jsval \<Rightarrow> category" where
  "spec_category action =
     (if truthy (qdot action ''addChatItemAction'') then
        (if \<not> truthy (qdot (qdot action ''addChatItemAction'') ''item'')
         then SkippedUnhandledAction
         else if truthy (qdot (qdot (qdot action ''addChatItemAction'') ''item'')
                           ''liveChatTextMessageRenderer'')
               \<or> truthy (qdot (qdot (qdot action ''addChatItemAction'') ''item'')
                           ''liveChatMembershipItemRenderer'')
         then Displayed
         else SkippedUnhandledItem)
      else if truthy (qdot action ''addLiveChatTickerItemAction'') then SkippedTicker
      else SkippedUnhandledAction)"

definition countOf :: "category \<Rightarrow> jsval list \<Rightarrow> nat" where
  "countOf c actions = length (filter (\<lambda>a. spec_category a = c) actions)"

text \<open>The elements one action appends to the chat container.\<close>

definition emittedBy :: "host \<Rightarrow> jsval \<Rightarrow> element list" where
  "emittedBy h action =
     (case processAction h initialState action of
        Inl e \<Rightarrow> []
      | Inr st \<Rightarrow> chatContainer st)"

section \<open>Example inputs\<close>

text \<open>
  A host on a page at \<^verbatim>\<open>https://chat.example/replay.html\<close>: an image assigned the
  empty string reads back the URL of the page, any other string of the examples is
  an absolute URL and reads back as it is.  Its parser rejects everything, reporting
  the text it was given.
\<close>

definition pageHost :: host where
  "pageHost = \<lparr>JSON_parse = (\<lambda>s. Inl s),
                imgSrc = (\<lambda>s. if s = [] then lit ''https://chat.example/replay.html'' else s)\<rparr>"

text \<open>
  Four actions, one of each category:
  \<^verbatim>\<open>{"addChatItemAction":{"item":{"liveChatTextMessageRenderer":
      {"message":{"runs":[{"text":"hi"}]}}}}}\<close>,
  \<^verbatim>\<open>{"addLiveChatTickerItemAction":{}}\<close>,
  \<^verbatim>\<open>{"addChatItemAction":{"item":{"liveChatPaidMessageRenderer":{}}}}\<close> and
  \<^verbatim>\<open>{"addChatItemAction":{"item":null}}\<close>.
\<close>

definition textAction :: jsval where
  "textAction = Some (JObj [(lit ''addChatItemAction'', JObj [(lit ''item'',
     JObj [(lit ''liveChatTextMessageRenderer'', JObj [(lit ''message'',
       JObj [(lit ''runs'', JArr [JObj [(lit ''text'', JStr (lit ''hi''))]])])])])])])"

definition tickerAction :: jsval where
  "tickerAction = Some (JObj [(lit ''addLiveChatTickerItemAction'', JObj [])])"

definition paidAction :: jsval where
  "paidAction = Some (JObj [(lit ''addChatItemAction'', JObj [(lit ''item'',
     JObj [(lit ''liveChatPaidMessageRenderer'', JObj [])])])])"

definition noItemAction :: jsval where
  "noItemAction = Some (JObj [(lit ''addChatItemAction'', JObj [(lit ''item'', JNull)])])"

text \<open>The message element of \<open>textAction\<close>.\<close>

definition textMessage :: chat_message where
  "textMessage = \<lparr>messageTypeClass = [], authorPhotoUrl = lit ''placeholder.png'',
     timestampText = lit ''[no time]'', authorNameText = lit ''[unknown author]'',
     badgeImgs = [], bodyDiv = [TextNode (lit ''hi'')]\<rparr>"

section \<open>Properties\<close>

subsection \<open>Strings\<close>


lemma not_ws_braces: "\<not> isWhiteSpace 0x7B" "\<not> isWhiteSpace 0x7D" "\<not> isWhiteSpace 0x5B" "\<not> isWhiteSpace 0x5D"
  by (simp_all add: isWhiteSpace_def)

lemma rs_not_rbrace: "c \<noteq> 0x7D \<Longrightarrow> replaceSeparators (c # cs) = c # replaceSeparators cs"
  by simp

lemma rs_rbrace_nil:
  "dropWhile isWhiteSpace cs = [] \<Longrightarrow> replaceSeparators (0x7D # cs) = 0x7D # replaceSeparators cs"
  by (simp del: dropWhile_eq_Nil_conv)

lemma rs_rbrace_sep:
  "dropWhile isWhiteSpace cs = 0x7B # rest \<Longrightarrow>
   replaceSeparators (0x7D # cs) = lit ''},{'' @ replaceSeparators rest"
  by simp

lemma rs_rbrace_other:
  "dropWhile isWhiteSpace cs = d # rest \<Longrightarrow> d \<noteq> 0x7B \<Longrightarrow>
   replaceSeparators (0x7D # cs) = 0x7D # replaceSeparators cs"
  by simp

lemma replaceSeparators_match:
  assumes "\<forall>c\<in>set ws. isWhiteSpace c"
  shows "replaceSeparators (0x7D # ws @ 0x7B # b) = lit ''},{'' @ replaceSeparators b"
proof -
  from assms have "dropWhile isWhiteSpace (ws @ 0x7B # b) = 0x7B # b"
    by (simp add: dropWhile_append2 not_ws_braces)
  then show ?thesis by (rule rs_rbrace_sep)
qed

lemma replaceSeparators_append_rbrace:
  "replaceSeparators (a @ 0x7D # r) = replaceSeparators a @ replaceSeparators (0x7D # r)"
proof (induction a rule: replaceSeparators.induct)
  case 1
  show ?case by simp
next
  case (2 c cs)
  show ?case
  proof (cases "c = 0x7D")
    case False
    with "2.IH"(4) show ?thesis by (simp add: rs_not_rbrace del: replaceSeparators.simps)
  next
    case True
    show ?thesis
    proof (cases "dropWhile isWhiteSpace cs")
      case Nil
      then have all: "\<forall>x\<in>set cs. isWhiteSpace x" by simp
      then have dw: "dropWhile isWhiteSpace (cs @ 0x7D # r) = 0x7D # r"
        by (simp add: dropWhile_append2 not_ws_braces)
      have ih: "replaceSeparators (cs @ 0x7D # r) = replaceSeparators cs @ replaceSeparators (0x7D # r)"
        using "2.IH"(1) [OF True Nil] .
      have "replaceSeparators (0x7D # cs @ 0x7D # r) = 0x7D # replaceSeparators (cs @ 0x7D # r)"
        using dw by (rule rs_rbrace_other) simp
      moreover have "replaceSeparators (0x7D # cs) = 0x7D # replaceSeparators cs"
        using Nil by (rule rs_rbrace_nil)
      ultimately show ?thesis using True ih by (simp del: replaceSeparators.simps)
    next
      case (Cons d rest)
      then have dw: "dropWhile isWhiteSpace (cs @ 0x7D # r) = d # rest @ 0x7D # r"
        by (metis append_Cons dropWhile_append1 dropWhile_eq_Nil_conv list.distinct(1))
      show ?thesis
      proof (cases "d = 0x7B")
        case dT: True
        have ih: "replaceSeparators (rest @ 0x7D # r) = replaceSeparators rest @ replaceSeparators (0x7D # r)"
          using "2.IH"(2) [OF True Cons dT] .
        have "replaceSeparators (0x7D # cs @ 0x7D # r) = lit ''},{'' @ replaceSeparators (rest @ 0x7D # r)"
          using dw dT by (intro rs_rbrace_sep) simp
        moreover have "replaceSeparators (0x7D # cs) = lit ''},{'' @ replaceSeparators rest"
          using Cons dT by (intro rs_rbrace_sep) simp
        ultimately show ?thesis using True ih by (simp del: replaceSeparators.simps)
      next
        case dF: False
        have ih: "replaceSeparators (cs @ 0x7D # r) = replaceSeparators cs @ replaceSeparators (0x7D # r)"
          using "2.IH"(3) [OF True Cons dF] .
        have "replaceSeparators (0x7D # cs @ 0x7D # r) = 0x7D # replaceSeparators (cs @ 0x7D # r)"
          using dw dF by (rule rs_rbrace_other)
        moreover have "replaceSeparators (0x7D # cs) = 0x7D # replaceSeparators cs"
          using Cons dF by (rule rs_rbrace_other)
        ultimately show ?thesis using True ih by (simp del: replaceSeparators.simps)
      qed
    qed
  qed
qed

lemma replaceSeparators_occurrence:
  assumes "\<forall>c\<in>set ws. isWhiteSpace c"
  shows "replaceSeparators (a @ lit ''}'' @ ws @ lit ''{'' @ b)
         = replaceSeparators a @ lit ''},{'' @ replaceSeparators b"
proof -
  have "replaceSeparators (a @ 0x7D # ws @ 0x7B # b)
        = replaceSeparators a @ replaceSeparators (0x7D # ws @ 0x7B # b)"
    by (rule replaceSeparators_append_rbrace)
  also have "\<dots> = replaceSeparators a @ lit ''},{'' @ replaceSeparators b"
    using replaceSeparators_match [OF assms] by (simp del: replaceSeparators.simps)
  finally show ?thesis by (simp add: lit_def del: replaceSeparators.simps)
qed

lemma replaceSeparators_none:
  assumes "\<not> (\<exists>a ws b. s = a @ 0x7D # ws @ 0x7B # b \<and> (\<forall>c\<in>set ws. isWhiteSpace c))"
  shows "replaceSeparators s = s"
  using assms
proof (induction s rule: replaceSeparators.induct)
  case 1
  show ?case by simp
next
  case (2 c cs)
  have tl: "\<not> (\<exists>a ws b. cs = a @ 0x7D # ws @ 0x7B # b \<and> (\<forall>x\<in>set ws. isWhiteSpace x))"
  proof
    assume "\<exists>a ws b. cs = a @ 0x7D # ws @ 0x7B # b \<and> (\<forall>x\<in>set ws. isWhiteSpace x)"
    then obtain a ws b where "cs = a @ 0x7D # ws @ 0x7B # b" "\<forall>x\<in>set ws. isWhiteSpace x"
      by blast
    then have "c # cs = (c # a) @ 0x7D # ws @ 0x7B # b \<and> (\<forall>x\<in>set ws. isWhiteSpace x)"
      by simp
    with "2.prems" show False by blast
  qed
  show ?case
  proof (cases "c = 0x7D")
    case False
    with "2.IH"(4) [OF False tl] show ?thesis by (simp add: rs_not_rbrace)
  next
    case True
    show ?thesis
    proof (cases "dropWhile isWhiteSpace cs")
      case Nil
      with "2.IH"(1) [OF True Nil tl] True show ?thesis
        by (simp add: rs_rbrace_nil del: replaceSeparators.simps)
    next
      case (Cons d rest)
      have "d \<noteq> 0x7B"
      proof
        assume d: "d = 0x7B"
        have "cs = takeWhile isWhiteSpace cs @ dropWhile isWhiteSpace cs" by simp
        with Cons d True have "c # cs = [] @ 0x7D # takeWhile isWhiteSpace cs @ 0x7B # rest"
          by simp
        moreover have "\<forall>x\<in>set (takeWhile isWhiteSpace cs). isWhiteSpace x"
          by (auto dest: set_takeWhileD)
        ultimately show False using "2.prems" by blast
      qed
      with "2.IH"(3) [OF True Cons _ tl] True Cons show ?thesis
        by (simp add: rs_rbrace_other del: replaceSeparators.simps)
    qed
  qed
qed

lemma isLikelyValidArray_wrap: "isLikelyValidArray (lit ''['' @ x @ lit '']'')"
  by (simp add: isLikelyValidArray_def startsWith_def endsWith_def lit_def suffix_def)

lemma preprocess_twice: "preprocess (preprocess t) = preprocess t"
  by (simp add: preprocess_def isLikelyValidArray_wrap)

lemma trim_empty_iff: "trim s = [] \<longleftrightarrow> (\<forall>c\<in>set s. isWhiteSpace c)"
proof (cases "dropWhile isWhiteSpace s")
  case Nil
  moreover from Nil have "\<forall>c\<in>set s. isWhiteSpace c" by simp
  ultimately show ?thesis by (simp add: trim_def del: dropWhile_eq_Nil_conv)
next
  case (Cons d r)
  then have "\<not> isWhiteSpace d" using hd_dropWhile [of isWhiteSpace s] by simp
  moreover have "d \<in> set s" using Cons set_dropWhileD [of d isWhiteSpace s] by simp
  ultimately show ?thesis using Cons by (auto simp add: trim_def)
qed


lemma dropWhile_head: "xs \<noteq> [] \<Longrightarrow> \<not> P (hd xs) \<Longrightarrow> dropWhile P xs = xs"
  by (cases xs) simp_all

lemma trim_fixed:
  assumes "s \<noteq> []" "\<not> isWhiteSpace (hd s)" "\<not> isWhiteSpace (last s)"
  shows "trim s = s"
proof -
  from assms obtain c cs where s: "s = c # cs" by (cases s) auto
  with assms have "dropWhile isWhiteSpace s = s" by simp
  moreover have "dropWhile isWhiteSpace (rev s) = rev s"
  proof (rule dropWhile_head)
    show "rev s \<noteq> []" using assms(1) by simp
    show "\<not> isWhiteSpace (hd (rev s))" using assms(1,3) by (simp add: hd_rev)
  qed
  ultimately show ?thesis by (simp add: trim_def)
qed

lemma isLikelyValidArray_trimmed:
  assumes "isLikelyValidArray t"
  shows "t \<noteq> [] \<and> trim t = t"
proof -
  from assms obtain x where x: "t = 0x5B # x"
    by (auto simp add: isLikelyValidArray_def startsWith_def lit_def prefix_def)
  from assms obtain y where y: "t = y @ [0x5D]"
    by (auto simp add: isLikelyValidArray_def endsWith_def lit_def suffix_def)
  have "hd t = 0x5B" using x by simp
  moreover have "last t = 0x5D" using y by simp
  ultimately have "trim t = t" using x by (intro trim_fixed) (simp_all add: not_ws_braces)
  with x show ?thesis by simp
qed

lemma isLikelyValidArray_preprocess: "isLikelyValidArray (preprocess t)"
  by (simp add: preprocess_def isLikelyValidArray_wrap)


subsection \<open>Values and failures\<close>

lemma lit_eq_iff [simp]: "lit s = lit t \<longleftrightarrow> s = t"
proof -
  have inj: "inj (of_char :: char \<Rightarrow> 16 word)"
  proof (rule injI)
    fix c d :: char
    assume "(of_char c :: 16 word) = of_char d"
    then have "unat (of_nat (of_char c) :: 16 word) = unat (of_nat (of_char d) :: 16 word)"
      by (simp add: of_nat_of_char)
    moreover have "(of_char c :: nat) < 2 ^ 16" "(of_char d :: nat) < 2 ^ 16"
      by (rule less_trans [OF nat_of_char_less_256], simp)+
    ultimately have "(of_char c :: nat) = of_char d"
      by (simp add: unat_of_nat)
    then show "c = d" by (simp add: inj_of_char [THEN injD])
  qed
  show ?thesis by (simp add: lit_def inj_map_eq_map [OF inj])
qed

lemma lit_Nil_iff [simp]: "lit s = [] \<longleftrightarrow> s = []"
  by (simp add: lit_def)

lemma showNat_digit: "n < 10 \<Longrightarrow> showNat n = [0x30 + of_nat n]"
  by (simp add: showNat.simps)

lemma toStr_own_toString:
  "toStr (JObj [(lit ''toString'', JNum True (lit ''1''))]) = Inl TypeError"
  "toStr (JArr [JStr (lit ''a''), JNull, JObj [(lit ''toString'', JNull)]]) = Inl TypeError"
  "toStr (JArr [JStr (lit ''a''), JNull, JObj [(lit ''valueOf'', JNull)]])
     = Inr (lit ''a,,[object Object]'')"
  by (simp_all add: lit_def bindF_def)

lemma dot_truthy: "truthy v \<Longrightarrow> dot v k = Inr (rd v k)"
  by (cases v rule: truthy.cases) (simp_all add: rd_def)

lemma dot_non_null: "run \<noteq> JNull \<Longrightarrow> dot (Some run) k = Inr (qdot (Some run) k)"
  by (cases run) simp_all

lemma truthy_not_null: "truthy (qdot (Some run) k) \<Longrightarrow> run \<noteq> JNull"
  by (cases run) simp_all

lemma bindF_simps [simp]:
  "bindF (Inl e) f = Inl e" "bindF (Inr x) f = f x"
  by (simp_all add: bindF_def)

lemma bindF_Inr_iff: "bindF m f = Inr y \<longleftrightarrow> (\<exists>x. m = Inr x \<and> f x = Inr y)"
  by (cases m) simp_all

subsection \<open>The loop over the actions\<close>

lemma processAction_step:
  assumes ok: "processAction h st a = Inr st'"
  shows "messageCount st' = messageCount st + (if spec_category a = Displayed then 1 else 0)
       \<and> skippedTickerCount st' =
           skippedTickerCount st + (if spec_category a = SkippedTicker then 1 else 0)
       \<and> skippedOtherItemCount st' =
           skippedOtherItemCount st + (if spec_category a = SkippedUnhandledItem then 1 else 0)
       \<and> skippedOtherActionCount st' =
           skippedOtherActionCount st + (if spec_category a = SkippedUnhandledAction then 1 else 0)
       \<and> chatContainer st' = chatContainer st @ emittedBy h a
       \<and> (if spec_category a = Displayed then \<exists>m. emittedBy h a = [ChatMessage m]
           else emittedBy h a = [])"
proof (cases "truthy (qdot a ''addChatItemAction'')")
  case False
  then show ?thesis using ok
    by (cases "truthy (qdot a ''addLiveChatTickerItemAction'')")
       (auto simp add: processAction_def emittedBy_def spec_category_def initialState_def)
next
  case chat: True
  show ?thesis
  proof (cases "truthy (qdot (qdot a ''addChatItemAction'') ''item'')")
    case False
    with chat ok show ?thesis
      by (auto simp add: processAction_def emittedBy_def spec_category_def initialState_def rd_def)
  next
    case item: True
    let ?item = "qdot (qdot a ''addChatItemAction'') ''item''"
    let ?t = "qdot ?item ''liveChatTextMessageRenderer''"
    let ?m = "qdot ?item ''liveChatMembershipItemRenderer''"
    show ?thesis
    proof (cases "truthy ?t")
      case tx: True
      with chat item ok obtain m where m: "buildMessage h ?t [] ?t ?m = Inr m"
        by (auto simp add: processAction_def rd_def Let_def bindF_Inr_iff)
      with chat item tx ok show ?thesis
        by (auto simp add: processAction_def emittedBy_def spec_category_def initialState_def rd_def)
    next
      case notext: False
      show ?thesis
      proof (cases "truthy ?m")
        case member: True
        with chat item notext ok obtain m where
          m: "buildMessage h ?m (lit ''chat-membership-message'') ?t ?m = Inr m"
          by (auto simp add: processAction_def rd_def Let_def bindF_Inr_iff)
        with chat item notext member ok show ?thesis
          by (auto simp add: processAction_def emittedBy_def spec_category_def initialState_def rd_def)
      next
        case False
        with chat item notext ok show ?thesis
          by (auto simp add: processAction_def emittedBy_def spec_category_def initialState_def rd_def)
      qed
    qed
  qed
qed

lemma countOf_Cons:
  "countOf c (a # as) = (if spec_category a = c then 1 else 0) + countOf c as"
  by (simp add: countOf_def)

lemma countOf_Nil: "countOf c [] = 0"
  by (simp add: countOf_def)

lemma countOf_total:
  "countOf Displayed as + countOf SkippedTicker as + countOf SkippedUnhandledItem as
   + countOf SkippedUnhandledAction as = length as"
proof (induction as)
  case Nil
  show ?case by (simp add: countOf_Nil)
next
  case (Cons a as)
  then show ?case by (cases "spec_category a") (simp_all add: countOf_Cons)
qed

lemma forEachAction_run:
  "forEachAction h st actions = Inr st' \<Longrightarrow>
     messageCount st' = messageCount st + countOf Displayed actions
   \<and> skippedTickerCount st' = skippedTickerCount st + countOf SkippedTicker actions
   \<and> skippedOtherItemCount st' = skippedOtherItemCount st + countOf SkippedUnhandledItem actions
   \<and> skippedOtherActionCount st' =
       skippedOtherActionCount st + countOf SkippedUnhandledAction actions
   \<and> chatContainer st' = chatContainer st @ concat (map (emittedBy h) actions)
   \<and> (\<forall>a\<in>set actions. if spec_category a = Displayed then \<exists>m. emittedBy h a = [ChatMessage m]
           else emittedBy h a = [])"
proof (induction actions arbitrary: st)
  case Nil
  then show ?case by (simp add: countOf_Nil)
next
  case (Cons a as)
  from Cons.prems obtain st1 where
    one: "processAction h st a = Inr st1" and rest: "forEachAction h st1 as = Inr st'"
    by (auto simp add: bindF_Inr_iff)
  note s = processAction_step [OF one]
  note r = Cons.IH [OF rest]
  show ?case
  proof (intro conjI)
    show "messageCount st' = messageCount st + countOf Displayed (a # as)"
      using s r by (simp add: countOf_Cons)
    show "skippedTickerCount st' = skippedTickerCount st + countOf SkippedTicker (a # as)"
      using s r by (simp add: countOf_Cons)
    show "skippedOtherItemCount st' =
          skippedOtherItemCount st + countOf SkippedUnhandledItem (a # as)"
      using s r by (simp add: countOf_Cons)
    show "skippedOtherActionCount st' =
          skippedOtherActionCount st + countOf SkippedUnhandledAction (a # as)"
      using s r by (simp add: countOf_Cons)
    show "chatContainer st' = chatContainer st @ concat (map (emittedBy h) (a # as))"
      using s r by simp
    show "\<forall>x\<in>set (a # as). if spec_category x = Displayed
            then \<exists>m. emittedBy h x = [ChatMessage m] else emittedBy h x = []"
      using s r by simp
  qed
qed

subsection \<open>Repair of the text\<close>

text \<open>
  Claim C2.  When the trimmed text does not both start with \<^verbatim>\<open>[\<close> and end with
  \<^verbatim>\<open>]\<close>, the preprocessing replaces every occurrence of a closing brace, optional
  white space and an opening brace by \<^verbatim>\<open>},{\<close> (whatever surrounds the occurrence
  is repaired in the same way) and changes nothing else: a text without such an
  occurrence is returned as it is.  It then wraps the result in brackets, and that
  string is what is parsed.  The text \<^verbatim>\<open>{"a":1}{"b":2}\<close> becomes
  \<^verbatim>\<open>[{"a":1},{"b":2}]\<close>.
\<close>

theorem C2_repair_concatenated:
  \<open>(\<not> isLikelyValidArray t \<longrightarrow>
      preprocess t = lit ''['' @ replaceSeparators t @ lit '']'')
   \<and> ((\<forall>c\<in>set ws. isWhiteSpace c) \<longrightarrow>
      replaceSeparators (a @ lit ''}'' @ ws @ lit ''{'' @ b)
      = replaceSeparators a @ lit ''},{'' @ replaceSeparators b)
   \<and> (\<not> (\<exists>a' ws' b'. s = a' @ lit ''}'' @ ws' @ lit ''{'' @ b'
              \<and> (\<forall>c\<in>set ws'. isWhiteSpace c)) \<longrightarrow>
      replaceSeparators s = s)
   \<and> (trim rawText = t \<and> t \<noteq> [] \<and> \<not> isLikelyValidArray t \<longrightarrow>
      processChatData rv h rawText
      = afterParse rv h (JSON_parse h (lit ''['' @ replaceSeparators t @ lit '']'')))
   \<and> preprocess (lit ''{"a":1}{"b":2}'') = lit ''[{"a":1},{"b":2}]''\<close>
proof (intro conjI impI)
  assume "\<not> isLikelyValidArray t"
  then show "preprocess t = lit ''['' @ replaceSeparators t @ lit '']''"
    by (simp add: preprocess_def)
next
  assume "\<forall>c\<in>set ws. isWhiteSpace c"
  then show "replaceSeparators (a @ lit ''}'' @ ws @ lit ''{'' @ b)
      = replaceSeparators a @ lit ''},{'' @ replaceSeparators b"
    by (rule replaceSeparators_occurrence)
next
  assume "\<not> (\<exists>a' ws' b'. s = a' @ lit ''}'' @ ws' @ lit ''{'' @ b'
              \<and> (\<forall>c\<in>set ws'. isWhiteSpace c))"
  then have "\<not> (\<exists>a ws b. s = a @ 0x7D # ws @ 0x7B # b \<and> (\<forall>c\<in>set ws. isWhiteSpace c))"
    by (simp add: lit_def)
  then show "replaceSeparators s = s"
    by (rule replaceSeparators_none)
next
  assume "trim rawText = t \<and> t \<noteq> [] \<and> \<not> isLikelyValidArray t"
  then show "processChatData rv h rawText
      = afterParse rv h (JSON_parse h (lit ''['' @ replaceSeparators t @ lit '']''))"
    by (simp add: processChatData_def preprocess_def)
next
  show \<open>preprocess (lit ''{"a":1}{"b":2}'') = lit ''[{"a":1},{"b":2}]''\<close>
    by (simp add: preprocess_def isLikelyValidArray_def startsWith_def endsWith_def
        lit_def suffix_def isWhiteSpace_def)
qed

theorem C2_repair_concatenated_witness:
  \<open>\<not> isLikelyValidArray (lit ''{} {}'')
   \<and> preprocess (lit ''{} {}'') = lit ''[{},{}]''
   \<and> isWhiteSpace 0x20 \<and> isWhiteSpace 0x0A
   \<and> replaceSeparators (lit ''{"a":1'' @ lit ''}'' @ [0x20, 0x0A] @ lit ''{'' @ lit ''"b":2}'')
      = lit ''{"a":1},{"b":2}''
   \<and> \<not> (\<exists>a' ws' b'. lit ''{"t":"a b"}'' = a' @ lit ''}'' @ ws' @ lit ''{'' @ b'
              \<and> (\<forall>c\<in>set ws'. isWhiteSpace c))
   \<and> replaceSeparators (lit ''{"t":"a b"}'') = lit ''{"t":"a b"}''
   \<and> trim (lit '' {} {} '') = lit ''{} {}'' \<and> lit ''{} {}'' \<noteq> []
   \<and> processChatData UrlLoader \<lparr>JSON_parse = (\<lambda>s. Inl s), imgSrc = (\<lambda>s. s)\<rparr> (lit '' {} {} '')
      = Inl (SyntaxError (lit ''[{},{}]''))\<close>
proof -
  have ws: "\<forall>c\<in>set [0x20, 0x0A]. isWhiteSpace c" by (simp add: isWhiteSpace_def)
  have nv: "\<not> isLikelyValidArray (lit ''{} {}'')"
    by (simp add: isLikelyValidArray_def startsWith_def lit_def)
  have tr: "trim (lit '' {} {} '') = lit ''{} {}''"
    by (simp add: trim_def lit_def isWhiteSpace_def)
  have ne: "lit ''{} {}'' \<noteq> []" by (simp add: lit_def)
  have rs: "replaceSeparators (lit ''{} {}'') = lit ''{},{}''"
    by (simp add: lit_def isWhiteSpace_def)
  have rs2: \<open>replaceSeparators (lit ''{"a":1'') = lit ''{"a":1''\<close>
    \<open>replaceSeparators (lit ''"b":2}'') = lit ''"b":2}''\<close>
    by (simp_all add: lit_def isWhiteSpace_def)
  have no: \<open>\<not> (\<exists>a' ws' b'. lit ''{"t":"a b"}'' = a' @ lit ''}'' @ ws' @ lit ''{'' @ b'
              \<and> (\<forall>c\<in>set ws'. isWhiteSpace c))\<close>
    by (auto simp add: lit_def Cons_eq_append_conv)
  show ?thesis
    using C2_repair_concatenated [where t = "lit ''{} {}''" and ws = "[0x20, 0x0A]"
        and a = \<open>lit ''{"a":1''\<close> and b = \<open>lit ''"b":2}''\<close> and s = \<open>lit ''{"t":"a b"}''\<close>
        and rawText = "lit '' {} {} ''" and rv = UrlLoader
        and h = "\<lparr>JSON_parse = (\<lambda>s. Inl s), imgSrc = (\<lambda>s. s)\<rparr>"]
      ws nv tr ne rs rs2 no
    by (simp add: afterParse_def lit_def)
qed

text \<open>
  Claim C3.  A trimmed text that starts with \<^verbatim>\<open>[\<close> and ends with \<^verbatim>\<open>]\<close> is left as it
  is and reaches the parser unchanged.  The result of the preprocessing always has
  that shape, so preprocessing it again changes nothing (no second pair of
  brackets), and running the whole of \<^verbatim>\<open>processChatData\<close> on it parses that very
  string.
\<close>

theorem C3_repair_idempotent:
  "(isLikelyValidArray t \<longrightarrow> preprocess t = t)
   \<and> (trim rawText = t \<and> isLikelyValidArray t \<longrightarrow>
        processChatData rv h rawText = afterParse rv h (JSON_parse h t))
   \<and> isLikelyValidArray (preprocess s)
   \<and> preprocess (preprocess s) = preprocess s
   \<and> processChatData rv h (preprocess s) = afterParse rv h (JSON_parse h (preprocess s))"
proof (intro conjI impI)
  assume "isLikelyValidArray t"
  then show "preprocess t = t" by (simp add: preprocess_def)
next
  assume a: "trim rawText = t \<and> isLikelyValidArray t"
  then have "t \<noteq> []" using isLikelyValidArray_trimmed by blast
  with a show "processChatData rv h rawText = afterParse rv h (JSON_parse h t)"
    by (simp add: processChatData_def preprocess_def)
next
  show "isLikelyValidArray (preprocess s)" by (rule isLikelyValidArray_preprocess)
next
  show "preprocess (preprocess s) = preprocess s" by (rule preprocess_twice)
next
  have "preprocess s \<noteq> [] \<and> trim (preprocess s) = preprocess s"
    using isLikelyValidArray_preprocess by (rule isLikelyValidArray_trimmed)
  then show "processChatData rv h (preprocess s) = afterParse rv h (JSON_parse h (preprocess s))"
    by (simp add: processChatData_def preprocess_twice)
qed

theorem C3_repair_idempotent_witness:
  \<open>isLikelyValidArray (lit ''[{"a":1}{"b":2}]'')
   \<and> preprocess (lit ''[{"a":1}{"b":2}]'') = lit ''[{"a":1}{"b":2}]''
   \<and> trim (lit '' [1] '') = lit ''[1]'' \<and> isLikelyValidArray (lit ''[1]'')
   \<and> processChatData ScriptJs \<lparr>JSON_parse = (\<lambda>s. Inl s), imgSrc = (\<lambda>s. s)\<rparr> (lit '' [1] '')
      = Inl (SyntaxError (lit ''[1]''))
   \<and> preprocess (preprocess (lit ''{}{}'')) = lit ''[{},{}]''\<close>
proof -
  have v1: \<open>isLikelyValidArray (lit ''[{"a":1}{"b":2}]'')\<close>
    by (simp add: isLikelyValidArray_def startsWith_def endsWith_def lit_def suffix_def)
  have v2: "isLikelyValidArray (lit ''[1]'')"
    by (simp add: isLikelyValidArray_def startsWith_def endsWith_def lit_def suffix_def)
  have tr: "trim (lit '' [1] '') = lit ''[1]''"
    by (simp add: trim_def lit_def isWhiteSpace_def)
  have p: "preprocess (lit ''{}{}'') = lit ''[{},{}]''"
    by (simp add: preprocess_def isLikelyValidArray_def startsWith_def lit_def isWhiteSpace_def)
  show ?thesis
    using C3_repair_idempotent [of \<open>lit ''[{"a":1}{"b":2}]''\<close> "lit '' [1] ''" ScriptJs
        "\<lparr>JSON_parse = (\<lambda>s. Inl s), imgSrc = (\<lambda>s. s)\<rparr>" "lit ''{}{}''"]
      C3_repair_idempotent [of "lit ''[1]''" "lit '' [1] ''" ScriptJs
        "\<lparr>JSON_parse = (\<lambda>s. Inl s), imgSrc = (\<lambda>s. s)\<rparr>" "lit ''{}{}''"]
      v1 v2 tr p
    by (simp add: afterParse_def)
qed

subsection \<open>Empty input\<close>

text \<open>
  Claim C4.  A text that is empty or consists of white space only fails with
  \<open>EmptyData\<close>, whatever the parser would do (it is not consulted), and no message
  is shown.
\<close>

theorem C4_empty_input:
  "(\<forall>c\<in>set rawText. isWhiteSpace c) \<Longrightarrow>
   processChatData rv h rawText = Inl EmptyData
   \<and> messagesOf (processChatData rv h rawText) = []"
  by (simp add: processChatData_def trim_empty_iff)

theorem C4_empty_input_witness:
  "isWhiteSpace 0x20 \<and> isWhiteSpace 0x09 \<and> isWhiteSpace 0x0A \<and> isWhiteSpace 0x0D
   \<and> isWhiteSpace 0xFEFF \<and> isWhiteSpace 0x3000
   \<and> processChatData UrlLoader \<lparr>JSON_parse = (\<lambda>s. Inr (JArr [])), imgSrc = (\<lambda>s. s)\<rparr>
        [0x20, 0x09, 0x0A, 0x0D, 0xFEFF, 0x3000] = Inl EmptyData
   \<and> messagesOf (processChatData UrlLoader \<lparr>JSON_parse = (\<lambda>s. Inr (JArr [])), imgSrc = (\<lambda>s. s)\<rparr>
        [0x20, 0x09, 0x0A, 0x0D, 0xFEFF, 0x3000]) = []"
proof -
  have ws: "\<forall>c\<in>set [0x20, 0x09, 0x0A, 0x0D, 0xFEFF, 0x3000]. isWhiteSpace c"
    by (simp add: isWhiteSpace_def)
  show ?thesis
    using C4_empty_input [OF ws, of UrlLoader "\<lparr>JSON_parse = (\<lambda>s. Inr (JArr [])), imgSrc = (\<lambda>s. s)\<rparr>"] ws
    by simp
qed

subsection \<open>The example actions\<close>

lemma processAction_textAction:
  "processAction h st textAction =
     Inr (st\<lparr>messageCount := messageCount st + 1,
             chatContainer := chatContainer st @ [ChatMessage textMessage]\<rparr>)"
  by (simp add: processAction_def textAction_def textMessage_def rd_def buildMessage_def
      headerBadges_def messageBody_def processMessageRuns_def processRun_def orElse_def
      isArray_def elements_def)

lemma processAction_tickerAction:
  "processAction h st tickerAction =
     Inr (st\<lparr>skippedTickerCount := skippedTickerCount st + 1\<rparr>)"
  by (simp add: processAction_def tickerAction_def)

lemma processAction_paidAction:
  "processAction h st paidAction =
     Inr (st\<lparr>skippedOtherItemCount := skippedOtherItemCount st + 1\<rparr>)"
  by (simp add: processAction_def paidAction_def rd_def)

lemma processAction_noItemAction:
  "processAction h st noItemAction =
     Inr (st\<lparr>skippedOtherActionCount := skippedOtherActionCount st + 1\<rparr>)"
  by (simp add: processAction_def noItemAction_def rd_def)

lemma spec_category_examples:
  "spec_category textAction = Displayed"
  "spec_category tickerAction = SkippedTicker"
  "spec_category paidAction = SkippedUnhandledItem"
  "spec_category noItemAction = SkippedUnhandledAction"
  by (simp_all add: spec_category_def textAction_def tickerAction_def paidAction_def
      noItemAction_def)

lemma emittedBy_examples:
  "emittedBy h textAction = [ChatMessage textMessage]"
  "emittedBy h tickerAction = []"
  "emittedBy h paidAction = []"
  "emittedBy h noItemAction = []"
  by (simp_all add: emittedBy_def processAction_textAction processAction_tickerAction
      processAction_paidAction processAction_noItemAction initialState_def)

subsection \<open>Extraction of the actions\<close>

text \<open>
  Claim C5.  Each top-level item contributes the elements of
  \<^verbatim>\<open>replayChatItemAction.actions\<close> when that list is there; when that value is
  missing (or falsy), the elements of
  \<^verbatim>\<open>continuationContents.liveChatContinuation.actions\<close>; when both are missing, no
  action and no error.  The contributions are concatenated item by item, in the
  order of the items, and the result is what \<^verbatim>\<open>displayChatMessages\<close> receives.
\<close>

theorem C5_action_extraction:
  "(qdot (qdot (Some item) ''replayChatItemAction'') ''actions'' = Some (JArr xs) \<longrightarrow>
      flatten1 (actionsOf item) = map Some xs)
   \<and> (\<not> truthy (qdot (qdot (Some item) ''replayChatItemAction'') ''actions'')
      \<and> qdot (qdot (qdot (Some item) ''continuationContents'') ''liveChatContinuation'')
           ''actions'' = Some (JArr ys) \<longrightarrow>
      flatten1 (actionsOf item) = map Some ys)
   \<and> (\<not> truthy (qdot (qdot (Some item) ''replayChatItemAction'') ''actions'')
      \<and> \<not> truthy (qdot (qdot (qdot (Some item) ''continuationContents'')
                     ''liveChatContinuation'') ''actions'') \<longrightarrow>
      flatten1 (actionsOf item) = [])
   \<and> flatMapActions [] = []
   \<and> flatMapActions (item # items) = flatten1 (actionsOf item) @ flatMapActions items
   \<and> flatMapActions (items1 @ items2) = flatMapActions items1 @ flatMapActions items2
   \<and> afterParse rv h (Inr (JArr items)) = displayChatMessages rv h (flatMapActions items)"
  by (simp add: actionsOf_def orElse_def flatten1_def flatMapActions_def afterParse_def
      isArray_def elements_def)

theorem C5_action_extraction_witness:
  "qdot (qdot (Some (JObj [(lit ''replayChatItemAction'',
       JObj [(lit ''actions'', JArr [JStr (lit ''a''), JStr (lit ''b'')])]),
     (lit ''continuationContents'', JObj [(lit ''liveChatContinuation'',
       JObj [(lit ''actions'', JArr [JStr (lit ''z'')])])])])) ''replayChatItemAction'') ''actions''
     = Some (JArr [JStr (lit ''a''), JStr (lit ''b'')])
   \<and> \<not> truthy (qdot (qdot (Some (JObj [(lit ''continuationContents'',
       JObj [(lit ''liveChatContinuation'', JObj [(lit ''actions'', JArr [JStr (lit ''c'')])])])]))
       ''replayChatItemAction'') ''actions'')
   \<and> \<not> truthy (qdot (qdot (Some (JObj [(lit ''clickTrackingParams'', JStr (lit ''x''))]))
       ''replayChatItemAction'') ''actions'')
   \<and> \<not> truthy (qdot (qdot (qdot (Some (JObj [(lit ''clickTrackingParams'', JStr (lit ''x''))]))
       ''continuationContents'') ''liveChatContinuation'') ''actions'')
   \<and> flatMapActions
        [JObj [(lit ''replayChatItemAction'',
           JObj [(lit ''actions'', JArr [JStr (lit ''a''), JStr (lit ''b'')])]),
         (lit ''continuationContents'', JObj [(lit ''liveChatContinuation'',
           JObj [(lit ''actions'', JArr [JStr (lit ''z'')])])])],
         JObj [(lit ''clickTrackingParams'', JStr (lit ''x''))],
         JNull,
         JObj [(lit ''continuationContents'',
           JObj [(lit ''liveChatContinuation'', JObj [(lit ''actions'', JArr [JStr (lit ''c'')])])])]]
     = [Some (JStr (lit ''a'')), Some (JStr (lit ''b'')), Some (JStr (lit ''c''))]"
proof -
  let ?i1 = "JObj [(lit ''replayChatItemAction'',
       JObj [(lit ''actions'', JArr [JStr (lit ''a''), JStr (lit ''b'')])]),
     (lit ''continuationContents'', JObj [(lit ''liveChatContinuation'',
       JObj [(lit ''actions'', JArr [JStr (lit ''z'')])])])]"
  let ?i2 = "JObj [(lit ''clickTrackingParams'', JStr (lit ''x''))]"
  let ?i3 = "JObj [(lit ''continuationContents'',
       JObj [(lit ''liveChatContinuation'', JObj [(lit ''actions'', JArr [JStr (lit ''c'')])])])]"
  have a: "qdot (qdot (Some ?i1) ''replayChatItemAction'') ''actions''
           = Some (JArr [JStr (lit ''a''), JStr (lit ''b'')])" by simp
  have b: "\<not> truthy (qdot (qdot (Some ?i3) ''replayChatItemAction'') ''actions'')"
    "qdot (qdot (qdot (Some ?i3) ''continuationContents'') ''liveChatContinuation'') ''actions''
       = Some (JArr [JStr (lit ''c'')])" by simp_all
  have c: "\<not> truthy (qdot (qdot (Some ?i2) ''replayChatItemAction'') ''actions'')"
    "\<not> truthy (qdot (qdot (qdot (Some ?i2) ''continuationContents'')
                     ''liveChatContinuation'') ''actions'')" by simp_all
  have d: "flatten1 (actionsOf JNull) = []"
    by (simp add: actionsOf_def orElse_def flatten1_def)
  show ?thesis
    using C5_action_extraction [of ?i1 "[JStr (lit ''a''), JStr (lit ''b'')]" "[]" "[?i2, JNull, ?i3]"
            "[]" "[]" UrlLoader pageHost]
      C5_action_extraction [of ?i2 "[]" "[]" "[JNull, ?i3]" "[]" "[]" UrlLoader pageHost]
      C5_action_extraction [of JNull "[]" "[]" "[?i3]" "[]" "[]" UrlLoader pageHost]
      C5_action_extraction [of ?i3 "[]" "[JStr (lit ''c'')]" "[]" "[]" "[]" UrlLoader pageHost]
      a b c d
    by simp
qed

subsection \<open>The counters\<close>

text \<open>
  Claim C1.  When the loop over the actions has completed, the four counters add
  up to the number of actions, and each counter is the number of actions of its
  category: every action is counted once, in the category the specification gives
  it.  The state the loop ends in is the one the summary is written from.
\<close>

theorem C1_conservation:
  assumes "forEachAction h initialState actions = Inr st"
  shows "messageCount st + skippedTickerCount st + skippedOtherItemCount st
           + skippedOtherActionCount st = length actions
       \<and> messageCount st = countOf Displayed actions
       \<and> skippedTickerCount st = countOf SkippedTicker actions
       \<and> skippedOtherItemCount st = countOf SkippedUnhandledItem actions
       \<and> skippedOtherActionCount st = countOf SkippedUnhandledAction actions
       \<and> (if actions = [] then displayChatMessages rv h actions = Inr [Paragraph [] (noActionsText rv)]
           else displayChatMessages rv h actions
            = Inr (Paragraph [] (summaryText rv st (length actions)) # chatContainer st))"
proof -
  note r = forEachAction_run [OF assms]
  have c: "messageCount st = countOf Displayed actions"
    "skippedTickerCount st = countOf SkippedTicker actions"
    "skippedOtherItemCount st = countOf SkippedUnhandledItem actions"
    "skippedOtherActionCount st = countOf SkippedUnhandledAction actions"
    using r by (simp_all add: initialState_def)
  have "messageCount st + skippedTickerCount st + skippedOtherItemCount st
           + skippedOtherActionCount st = length actions"
    using c countOf_total [of actions] by simp
  moreover have "if actions = [] then displayChatMessages rv h actions = Inr [Paragraph [] (noActionsText rv)]
           else displayChatMessages rv h actions
            = Inr (Paragraph [] (summaryText rv st (length actions)) # chatContainer st)"
    using assms by (simp add: displayChatMessages_def)
  ultimately show ?thesis using c by simp
qed

theorem C1_conservation_witness:
  "forEachAction pageHost initialState [textAction, tickerAction, noItemAction, paidAction, tickerAction]
     = Inr \<lparr>messageCount = 1, skippedTickerCount = 2, skippedOtherActionCount = 1,
            skippedOtherItemCount = 1, chatContainer = [ChatMessage textMessage]\<rparr>
   \<and> (1::nat) + 2 + 1 + 1 = length [textAction, tickerAction, noItemAction, paidAction, tickerAction]
   \<and> countOf Displayed [textAction, tickerAction, noItemAction, paidAction, tickerAction] = 1
   \<and> countOf SkippedTicker [textAction, tickerAction, noItemAction, paidAction, tickerAction] = 2
   \<and> countOf SkippedUnhandledItem [textAction, tickerAction, noItemAction, paidAction, tickerAction] = 1
   \<and> countOf SkippedUnhandledAction [textAction, tickerAction, noItemAction, paidAction, tickerAction] = 1"
proof -
  have run: "forEachAction pageHost initialState
               [textAction, tickerAction, noItemAction, paidAction, tickerAction]
     = Inr \<lparr>messageCount = 1, skippedTickerCount = 2, skippedOtherActionCount = 1,
            skippedOtherItemCount = 1, chatContainer = [ChatMessage textMessage]\<rparr>"
    by (simp add: processAction_textAction processAction_tickerAction
        processAction_paidAction processAction_noItemAction initialState_def)
  show ?thesis
    using C1_conservation [OF run, of UrlLoader] run by simp
qed

lemma summary_one_each:
  assumes "messageCount st = 1" "skippedTickerCount st = 1" "skippedOtherItemCount st = 1"
    "skippedOtherActionCount st = 0" "n > 0"
  shows "summaryText rv st n
         = lit ''Displayed 1 messages. (Skipped: 1 ticker, 1 unhandled item types)''"
  using assms
  by (cases rv)
     (simp_all add: summaryText_def summaryLead_def skippedMessages_def showNat_digit lit_def)

text \<open>
  The summary of claim C6 as the specification words it, without the full stop
  after \<^verbatim>\<open>messages\<close>, is not what either revision shows for one text message, one
  ticker action and one unhandled item.
\<close>

theorem C6_summary_counterexample:
  "forEachAction pageHost initialState [textAction, tickerAction, paidAction]
     = Inr \<lparr>messageCount = 1, skippedTickerCount = 1, skippedOtherActionCount = 0,
            skippedOtherItemCount = 1, chatContainer = [ChatMessage textMessage]\<rparr>
   \<and> displayChatMessages UrlLoader pageHost [textAction, tickerAction, paidAction]
     = Inr [Paragraph [] (lit ''Displayed 1 messages. (Skipped: 1 ticker, 1 unhandled item types)''),
            ChatMessage textMessage]
   \<and> displayChatMessages ScriptJs pageHost [textAction, tickerAction, paidAction]
     = Inr [Paragraph [] (lit ''Displayed 1 messages. (Skipped: 1 ticker, 1 unhandled item types)''),
            ChatMessage textMessage]
   \<and> displayChatMessages UrlLoader pageHost [textAction, tickerAction, paidAction]
     \<noteq> Inr [Paragraph [] (lit ''Displayed 1 messages (Skipped: 1 ticker, 1 unhandled item types)''),
            ChatMessage textMessage]
   \<and> displayChatMessages ScriptJs pageHost [textAction, tickerAction, paidAction]
     \<noteq> Inr [Paragraph [] (lit ''Displayed 1 messages (Skipped: 1 ticker, 1 unhandled item types)''),
            ChatMessage textMessage]"
proof -
  have run: "forEachAction pageHost initialState [textAction, tickerAction, paidAction]
     = Inr \<lparr>messageCount = 1, skippedTickerCount = 1, skippedOtherActionCount = 0,
            skippedOtherItemCount = 1, chatContainer = [ChatMessage textMessage]\<rparr>"
    by (simp add: processAction_textAction processAction_tickerAction
        processAction_paidAction initialState_def)
  have "displayChatMessages rv pageHost [textAction, tickerAction, paidAction]
     = Inr [Paragraph [] (lit ''Displayed 1 messages. (Skipped: 1 ticker, 1 unhandled item types)''),
            ChatMessage textMessage]" for rv
    using run by (simp add: displayChatMessages_def summary_one_each)
  with run show ?thesis by simp
qed

text \<open>
  Claim C6, amended.  After a completed loop over actions of which one is
  displayed, one is a ticker action and one carries an unhandled item, the counters
  are 1, 1, 1 and 0 and the summary paragraph reads
  \<^verbatim>\<open>Displayed 1 messages. (Skipped: 1 ticker, 1 unhandled item types)\<close>, in both
  revisions.  In general the breakdown lists the nonzero skip counters only, each as
  its count and label, in the order ticker, unhandled item types, unhandled action
  types, joined by a comma and a space; with no nonzero counter nothing is appended.
\<close>

theorem C6_summary_amended:
  assumes run: "forEachAction h initialState actions = Inr st"
    and one: "countOf Displayed actions = 1" "countOf SkippedTicker actions = 1"
      "countOf SkippedUnhandledItem actions = 1" "countOf SkippedUnhandledAction actions = 0"
  shows "messageCount st = 1 \<and> skippedTickerCount st = 1 \<and> skippedOtherItemCount st = 1
       \<and> skippedOtherActionCount st = 0
       \<and> displayChatMessages rv h actions
          = Inr (Paragraph []
                   (lit ''Displayed 1 messages. (Skipped: 1 ticker, 1 unhandled item types)'')
                 # chatContainer st)
       \<and> skippedMessages st'
          = map (\<lambda>(n, label). showNat n @ lit '' '' @ label)
              (filter (\<lambda>(n, label). n > 0)
                 [(skippedTickerCount st', lit ''ticker''),
                  (skippedOtherItemCount st', lit ''unhandled item types''),
                  (skippedOtherActionCount st', lit ''unhandled action types'')])
       \<and> summaryText rv st' n
          = summaryLead rv st' n
            @ (if skippedMessages st' = [] then []
               else lit '' (Skipped: '' @ joinWith (lit '', '') (skippedMessages st') @ lit '')'')"
proof -
  note r = forEachAction_run [OF run]
  have c: "messageCount st = 1" "skippedTickerCount st = 1" "skippedOtherItemCount st = 1"
    "skippedOtherActionCount st = 0"
    using r one by (simp_all add: initialState_def)
  have len: "length actions = 3"
    using countOf_total [of actions] one by simp
  have d: "displayChatMessages rv h actions
          = Inr (Paragraph []
                   (lit ''Displayed 1 messages. (Skipped: 1 ticker, 1 unhandled item types)'')
                 # chatContainer st)"
    using run len summary_one_each [OF c, of "length actions" rv]
    by (simp add: displayChatMessages_def)
  have s: "skippedMessages st'
          = map (\<lambda>(n, label). showNat n @ lit '' '' @ label)
              (filter (\<lambda>(n, label). n > 0)
                 [(skippedTickerCount st', lit ''ticker''),
                  (skippedOtherItemCount st', lit ''unhandled item types''),
                  (skippedOtherActionCount st', lit ''unhandled action types'')])"
    by (simp add: skippedMessages_def lit_def)
  have t: "summaryText rv st' n
          = summaryLead rv st' n
            @ (if skippedMessages st' = [] then []
               else lit '' (Skipped: '' @ joinWith (lit '', '') (skippedMessages st') @ lit '')'')"
    by (simp add: summaryText_def)
  from c d s t show ?thesis by blast
qed

theorem C6_summary_amended_witness:
  "forEachAction pageHost initialState [paidAction, textAction, tickerAction]
     = Inr \<lparr>messageCount = 1, skippedTickerCount = 1, skippedOtherActionCount = 0,
            skippedOtherItemCount = 1, chatContainer = [ChatMessage textMessage]\<rparr>
   \<and> countOf Displayed [paidAction, textAction, tickerAction] = 1
   \<and> countOf SkippedTicker [paidAction, textAction, tickerAction] = 1
   \<and> countOf SkippedUnhandledItem [paidAction, textAction, tickerAction] = 1
   \<and> countOf SkippedUnhandledAction [paidAction, textAction, tickerAction] = 0
   \<and> displayChatMessages UrlLoader pageHost [paidAction, textAction, tickerAction]
     = Inr [Paragraph [] (lit ''Displayed 1 messages. (Skipped: 1 ticker, 1 unhandled item types)''),
            ChatMessage textMessage]"
proof -
  have run: "forEachAction pageHost initialState [paidAction, textAction, tickerAction]
     = Inr \<lparr>messageCount = 1, skippedTickerCount = 1, skippedOtherActionCount = 0,
            skippedOtherItemCount = 1, chatContainer = [ChatMessage textMessage]\<rparr>"
    by (simp add: processAction_textAction processAction_tickerAction
        processAction_paidAction initialState_def)
  have n: "countOf Displayed [paidAction, textAction, tickerAction] = 1"
    "countOf SkippedTicker [paidAction, textAction, tickerAction] = 1"
    "countOf SkippedUnhandledItem [paidAction, textAction, tickerAction] = 1"
    "countOf SkippedUnhandledAction [paidAction, textAction, tickerAction] = 0"
    by (simp_all add: countOf_def spec_category_examples)
  show ?thesis
    using C6_summary_amended [OF run n, of UrlLoader] run n by simp
qed

subsection \<open>Order of the messages\<close>

text \<open>
  Claim C7.  After a completed loop the chat container holds the elements the
  actions emit, concatenated in the order of the actions: an action of the
  displayed category emits exactly one message, any other action none, so for an
  action A before an action B the message of A stands before the message of B.  The
  messages \<^verbatim>\<open>displayChatMessages\<close> shows are these.
\<close>

theorem C7_order_preserved:
  assumes "forEachAction h initialState actions = Inr st"
  shows "chatContainer st = concat (map (emittedBy h) actions)
       \<and> messagesOf (displayChatMessages rv h actions)
           = messagesOf (Inr (concat (map (emittedBy h) actions)))
       \<and> (\<forall>a\<in>set actions.
             if spec_category a = Displayed then \<exists>m. emittedBy h a = [ChatMessage m]
             else emittedBy h a = [])
       \<and> (\<forall>xs A ys B zs. actions = xs @ A # ys @ B # zs \<longrightarrow>
             chatContainer st = concat (map (emittedBy h) xs) @ emittedBy h A
                @ concat (map (emittedBy h) ys) @ emittedBy h B
                @ concat (map (emittedBy h) zs))"
proof -
  note r = forEachAction_run [OF assms]
  have c: "chatContainer st = concat (map (emittedBy h) actions)"
    using r by (simp add: initialState_def)
  have m: "messagesOf (displayChatMessages rv h actions)
           = messagesOf (Inr (concat (map (emittedBy h) actions)))"
  proof (cases "actions = []")
    case True
    then show ?thesis by (simp add: displayChatMessages_def)
  next
    case False
    then show ?thesis using assms c by (simp add: displayChatMessages_def)
  qed
  have e: "\<forall>a\<in>set actions.
             if spec_category a = Displayed then \<exists>m. emittedBy h a = [ChatMessage m]
             else emittedBy h a = []"
    using r by blast
  have o: "\<forall>xs A ys B zs. actions = xs @ A # ys @ B # zs \<longrightarrow>
             chatContainer st = concat (map (emittedBy h) xs) @ emittedBy h A
                @ concat (map (emittedBy h) ys) @ emittedBy h B
                @ concat (map (emittedBy h) zs)"
    using c by simp
  from c m e o show ?thesis by blast
qed

theorem C7_order_preserved_witness:
  "forEachAction pageHost initialState [tickerAction, textAction, paidAction, textAction]
     = Inr \<lparr>messageCount = 2, skippedTickerCount = 1, skippedOtherActionCount = 0,
            skippedOtherItemCount = 1,
            chatContainer = [ChatMessage textMessage, ChatMessage textMessage]\<rparr>
   \<and> concat (map (emittedBy pageHost) [tickerAction, textAction, paidAction, textAction])
     = [ChatMessage textMessage, ChatMessage textMessage]
   \<and> messagesOf (displayChatMessages ScriptJs pageHost
        [tickerAction, textAction, paidAction, textAction]) = [textMessage, textMessage]"
proof -
  have run: "forEachAction pageHost initialState [tickerAction, textAction, paidAction, textAction]
     = Inr \<lparr>messageCount = 2, skippedTickerCount = 1, skippedOtherActionCount = 0,
            skippedOtherItemCount = 1,
            chatContainer = [ChatMessage textMessage, ChatMessage textMessage]\<rparr>"
    by (simp add: processAction_textAction processAction_tickerAction
        processAction_paidAction initialState_def)
  show ?thesis
    using C7_order_preserved [OF run, of ScriptJs] run
    by (simp add: emittedBy_examples)
qed

subsection \<open>Runs\<close>

lemma processRun_emoji:
  assumes "\<not> truthy (qdot (Some run) ''text'')" "truthy (qdot (Some run) ''emoji'')"
  shows "processRun h run =
     bindF (toString (orElse
              (qdot (qat0 (qdot (qdot (qdot (Some run) ''emoji'') ''image'') ''thumbnails''))
                 ''url'')
              (Some (JStr [])))) (\<lambda>src.
     bindF (toString (orElse (orElse
              (qdot (qdot (qdot (qdot (Some run) ''emoji'') ''accessibility'')
                 ''accessibilityData'') ''label'')
              (qat0 (qdot (qdot (Some run) ''emoji'') ''shortcuts'')))
              (Some (JStr (lit ''emoji''))))) (\<lambda>altText.
       if imgSrc h src \<noteq> [] then Inr [EmojiImg src altText]
       else Inr [TextNode (lit ''['' @ altText @ lit '']'')]))"
proof -
  have "run \<noteq> JNull" using assms(2) by (rule truthy_not_null)
  then have "dot (Some run) ''text'' = Inr (qdot (Some run) ''text'')" by (rule dot_non_null)
  then show ?thesis using assms by (simp add: processRun_def rd_def Let_def)
qed

text \<open>
  Claim C8 says that an emoji run whose thumbnail list yields no image URL degrades
  to the bracketed alt text.  The code assigns \<^verbatim>\<open>""\<close> to \<^verbatim>\<open>img.src\<close> and then tests
  \<^verbatim>\<open>img.src\<close>, which is the getter: the run is appended as the text node \<^verbatim>\<open>[alt]\<close>
  only where an image assigned the empty string reads back empty.  Where it reads
  back the URL of the page, the image is appended, with an empty \<^verbatim>\<open>src\<close>; so it is
  for the run \<^verbatim>\<open>{"emoji":{"shortcuts":["chat"],"image":{"thumbnails":[]}}}\<close>.
\<close>

theorem C8_emoji_without_url:
  "(\<not> truthy (qdot (Some run) ''text'') \<and> truthy (qdot (Some run) ''emoji'')
     \<and> \<not> truthy (qdot (qat0 (qdot (qdot (qdot (Some run) ''emoji'') ''image'')
                      ''thumbnails'')) ''url'')
     \<and> toString (orElse (orElse
              (qdot (qdot (qdot (qdot (Some run) ''emoji'') ''accessibility'')
                 ''accessibilityData'') ''label'')
              (qat0 (qdot (qdot (Some run) ''emoji'') ''shortcuts'')))
              (Some (JStr (lit ''emoji'')))) = Inr altText
     \<longrightarrow>
       processRun h run =
         (if imgSrc h [] \<noteq> [] then Inr [EmojiImg [] altText]
          else Inr [TextNode (lit ''['' @ altText @ lit '']'')]))
   \<and> processMessageRuns h
         (Some (JArr [JObj [(lit ''emoji'',
            JObj [(lit ''shortcuts'', JArr [JStr (lit ''chat'')]),
                  (lit ''image'', JObj [(lit ''thumbnails'', JArr [])])])]])) []
       = (if imgSrc h [] \<noteq> [] then Inr [EmojiImg [] (lit ''chat'')]
          else Inr [TextNode (lit ''[chat]'')])"
proof (intro conjI impI)
  assume a: "\<not> truthy (qdot (Some run) ''text'') \<and> truthy (qdot (Some run) ''emoji'')
     \<and> \<not> truthy (qdot (qat0 (qdot (qdot (qdot (Some run) ''emoji'') ''image'')
                      ''thumbnails'')) ''url'')
     \<and> toString (orElse (orElse
              (qdot (qdot (qdot (qdot (Some run) ''emoji'') ''accessibility'')
                 ''accessibilityData'') ''label'')
              (qat0 (qdot (qdot (Some run) ''emoji'') ''shortcuts'')))
              (Some (JStr (lit ''emoji'')))) = Inr altText"
  then have "processRun h run =
     bindF (toString (Some (JStr []))) (\<lambda>src.
     bindF (Inr altText) (\<lambda>altText.
       if imgSrc h src \<noteq> [] then Inr [EmojiImg src altText]
       else Inr [TextNode (lit ''['' @ altText @ lit '']'')]))"
    using processRun_emoji [of run h] by (simp add: orElse_def)
  then show "processRun h run =
         (if imgSrc h [] \<noteq> [] then Inr [EmojiImg [] altText]
          else Inr [TextNode (lit ''['' @ altText @ lit '']'')])"
    by simp
next
  show "processMessageRuns h
         (Some (JArr [JObj [(lit ''emoji'',
            JObj [(lit ''shortcuts'', JArr [JStr (lit ''chat'')]),
                  (lit ''image'', JObj [(lit ''thumbnails'', JArr [])])])]])) []
       = (if imgSrc h [] \<noteq> [] then Inr [EmojiImg [] (lit ''chat'')]
          else Inr [TextNode (lit ''[chat]'')])"
    by (simp add: processMessageRuns_def isArray_def elements_def processRun_def rd_def
        orElse_def lit_def)
qed

theorem C8_emoji_without_url_witness:
  "\<not> truthy (qdot (Some (JObj [(lit ''emoji'', JObj [(lit ''accessibility'',
        JObj [(lit ''accessibilityData'', JObj [(lit ''label'', JStr (lit ''wave''))])])])]))
        ''text'')
   \<and> truthy (qdot (Some (JObj [(lit ''emoji'', JObj [(lit ''accessibility'',
        JObj [(lit ''accessibilityData'', JObj [(lit ''label'', JStr (lit ''wave''))])])])]))
        ''emoji'')
   \<and> imgSrc pageHost [] = lit ''https://chat.example/replay.html''
   \<and> processRun pageHost (JObj [(lit ''emoji'', JObj [(lit ''accessibility'',
        JObj [(lit ''accessibilityData'', JObj [(lit ''label'', JStr (lit ''wave''))])])])])
      = Inr [EmojiImg [] (lit ''wave'')]
   \<and> processMessageRuns pageHost
         (Some (JArr [JObj [(lit ''emoji'',
            JObj [(lit ''shortcuts'', JArr [JStr (lit ''chat'')]),
                  (lit ''image'', JObj [(lit ''thumbnails'', JArr [])])])]])) []
       = Inr [EmojiImg [] (lit ''chat'')]"
proof -
  let ?run = "JObj [(lit ''emoji'', JObj [(lit ''accessibility'',
        JObj [(lit ''accessibilityData'', JObj [(lit ''label'', JStr (lit ''wave''))])])])]"
  have s: "imgSrc pageHost [] = lit ''https://chat.example/replay.html''"
    by (simp add: pageHost_def)
  have t: "\<not> truthy (qdot (Some ?run) ''text'')" "truthy (qdot (Some ?run) ''emoji'')"
    "\<not> truthy (qdot (qat0 (qdot (qdot (qdot (Some ?run) ''emoji'') ''image'')
                      ''thumbnails'')) ''url'')"
    by simp_all
  have a: "toString (orElse (orElse
              (qdot (qdot (qdot (qdot (Some ?run) ''emoji'') ''accessibility'')
                 ''accessibilityData'') ''label'')
              (qat0 (qdot (qdot (Some ?run) ''emoji'') ''shortcuts'')))
              (Some (JStr (lit ''emoji'')))) = Inr (lit ''wave'')"
    by (simp add: orElse_def)
  show ?thesis
    using C8_emoji_without_url [of ?run "lit ''wave''" pageHost] s t a
    by simp
qed

lemma processRun_non_null:
  assumes "run \<noteq> JNull"
  shows "processRun h run =
     (if truthy (qdot (Some run) ''text'')
      then bindF (toString (qdot (Some run) ''text'')) (\<lambda>data. Inr [TextNode data])
      else if truthy (qdot (Some run) ''emoji'')
      then bindF (toString (orElse
                    (qdot (qat0 (qdot (qdot (qdot (Some run) ''emoji'') ''image'')
                       ''thumbnails'')) ''url'')
                    (Some (JStr [])))) (\<lambda>src.
           bindF (toString (orElse (orElse
                    (qdot (qdot (qdot (qdot (Some run) ''emoji'') ''accessibility'')
                       ''accessibilityData'') ''label'')
                    (qat0 (qdot (qdot (Some run) ''emoji'') ''shortcuts'')))
                    (Some (JStr (lit ''emoji''))))) (\<lambda>altText.
             if imgSrc h src \<noteq> [] then Inr [EmojiImg src altText]
             else Inr [TextNode (lit ''['' @ altText @ lit '']'')]))
      else Inr [])"
  using assms by (simp add: processRun_def dot_non_null rd_def Let_def)

text \<open>
  Claim C9 says that a run which is neither text nor emoji is dropped without an
  error.  That holds for every element of the runs array except \<^verbatim>\<open>null\<close>
  (\<open>processRun_non_null\<close>, and the last line below): \<^verbatim>\<open>run.text\<close> is a plain
  property read, so a \<^verbatim>\<open>null\<close> element throws a \<^verbatim>\<open>TypeError\<close>, which ends
  \<^verbatim>\<open>processMessageRuns\<close> and the whole of \<^verbatim>\<open>displayChatMessages\<close>, also for the
  messages already built.
\<close>

theorem C9_null_run_throws:
  "processRun h JNull = Inl TypeError
   \<and> processMessageRuns h (Some (JArr [JObj [(lit ''text'', JStr (lit ''hi''))], JNull])) []
       = Inl TypeError
   \<and> displayChatMessages rv h
        [textAction,
         Some (JObj [(lit ''addChatItemAction'', JObj [(lit ''item'',
           JObj [(lit ''liveChatTextMessageRenderer'', JObj [(lit ''message'',
             JObj [(lit ''runs'', JArr [JNull])])])])])])]
       = Inl TypeError
   \<and> processMessageRuns h (Some (JArr [JObj [(lit ''text'', JStr (lit ''hi''))],
         JObj [(lit ''navigationEndpoint'', JStr (lit ''x''))], JStr (lit ''s''),
         JBool True, JArr []])) []
       = Inr [TextNode (lit ''hi'')]"
proof -
  have r: "processRun h JNull = Inl TypeError"
    by (simp add: processRun_def)
  have m: "processMessageRuns h (Some (JArr [JObj [(lit ''text'', JStr (lit ''hi''))], JNull])) []
       = Inl TypeError"
    by (simp add: processMessageRuns_def isArray_def elements_def processRun_def)
  have a: "processAction h st
        (Some (JObj [(lit ''addChatItemAction'', JObj [(lit ''item'',
           JObj [(lit ''liveChatTextMessageRenderer'', JObj [(lit ''message'',
             JObj [(lit ''runs'', JArr [JNull])])])])])]))
       = Inl TypeError" for st
    by (simp add: processAction_def rd_def buildMessage_def headerBadges_def messageBody_def
        orElse_def isArray_def elements_def processMessageRuns_def processRun_def)
  have d: "displayChatMessages rv h
        [textAction,
         Some (JObj [(lit ''addChatItemAction'', JObj [(lit ''item'',
           JObj [(lit ''liveChatTextMessageRenderer'', JObj [(lit ''message'',
             JObj [(lit ''runs'', JArr [JNull])])])])])])]
       = Inl TypeError"
    by (simp add: displayChatMessages_def processAction_textAction a)
  have k: "processMessageRuns h (Some (JArr [JObj [(lit ''text'', JStr (lit ''hi''))],
         JObj [(lit ''navigationEndpoint'', JStr (lit ''x''))], JStr (lit ''s''),
         JBool True, JArr []])) []
       = Inr [TextNode (lit ''hi'')]"
    by (simp add: processMessageRuns_def isArray_def elements_def processRun_def rd_def)
  from r m d k show ?thesis by blast
qed

theorem C9_null_run_throws_witness:
  "processRun pageHost JNull = Inl TypeError
   \<and> processMessageRuns pageHost
        (Some (JArr [JObj [(lit ''text'', JStr (lit ''hi''))], JNull])) []
       = Inl TypeError
   \<and> displayChatMessages UrlLoader pageHost
        [textAction,
         Some (JObj [(lit ''addChatItemAction'', JObj [(lit ''item'',
           JObj [(lit ''liveChatTextMessageRenderer'', JObj [(lit ''message'',
             JObj [(lit ''runs'', JArr [JNull])])])])])])]
       = Inl TypeError"
  using C9_null_run_throws [of pageHost UrlLoader] by simp

subsection \<open>Fallbacks on empty strings\<close>

text \<open>
  Claim C10.  The fallbacks select by truthiness, so the empty string counts as
  missing.  In every message that is built, an empty author name gives
  \<^verbatim>\<open>[unknown author]\<close>, an empty timestamp \<^verbatim>\<open>[no time]\<close> and an empty first thumbnail
  URL of the author photo \<^verbatim>\<open>placeholder.png\<close>.  A badge entry with an empty tooltip
  appends no image with another \<^verbatim>\<open>alt\<close> than \<^verbatim>\<open>Badge\<close>, and appends that image when
  it has an icon.  A run whose text is the empty string is never appended as an
  empty text node, and it is dropped when it carries no emoji.
\<close>

theorem C10_truthiness_fallbacks:
  "(buildMessage h rendererData typeClass textRenderer memberRenderer = Inr msg \<longrightarrow>
      (qdot (rd rendererData ''authorName'') ''simpleText'' = Some (JStr []) \<longrightarrow>
         authorNameText msg = lit ''[unknown author]'')
    \<and> (qdot (rd rendererData ''timestampText'') ''simpleText'' = Some (JStr []) \<longrightarrow>
         timestampText msg = lit ''[no time]'')
    \<and> (qdot (qat0 (qdot (rd rendererData ''authorPhoto'') ''thumbnails'')) ''url''
          = Some (JStr []) \<longrightarrow>
         authorPhotoUrl msg = lit ''placeholder.png''))
   \<and> (rd (qdot (Some badgeItem) ''liveChatAuthorBadgeRenderer'') ''tooltip'' = Some (JStr [])
      \<and> badgeOf badgeItem = Inr imgs \<longrightarrow>
        (\<forall>b\<in>set imgs. badgeAlt b = lit ''Badge''))
   \<and> (rd (qdot (Some badgeItem) ''liveChatAuthorBadgeRenderer'') ''tooltip'' = Some (JStr [])
      \<and> truthy (qdot (qat0 (qdot (qdot (qdot (Some badgeItem) ''liveChatAuthorBadgeRenderer'')
                  ''customThumbnail'') ''thumbnails'')) ''url'')
      \<and> toString (qdot (qat0 (qdot (qdot (qdot (Some badgeItem) ''liveChatAuthorBadgeRenderer'')
                  ''customThumbnail'') ''thumbnails'')) ''url'') = Inr src
      \<longrightarrow> badgeOf badgeItem = Inr [\<lparr>badgeSrc = src, badgeAlt = lit ''Badge''\<rparr>])
   \<and> (qdot (Some run) ''text'' = Some (JStr []) \<longrightarrow>
        processRun h run \<noteq> Inr [TextNode []]
      \<and> (\<not> truthy (qdot (Some run) ''emoji'') \<longrightarrow> processRun h run = Inr []))"
proof (intro conjI impI)
  assume b: "buildMessage h rendererData typeClass textRenderer memberRenderer = Inr msg"
  {
    assume "qdot (rd rendererData ''authorName'') ''simpleText'' = Some (JStr [])"
    with b show "authorNameText msg = lit ''[unknown author]''"
      by (auto simp add: buildMessage_def Let_def bindF_Inr_iff orElse_def)
  }
  {
    assume "qdot (rd rendererData ''timestampText'') ''simpleText'' = Some (JStr [])"
    with b show "timestampText msg = lit ''[no time]''"
      by (auto simp add: buildMessage_def Let_def bindF_Inr_iff orElse_def)
  }
  {
    assume "qdot (qat0 (qdot (rd rendererData ''authorPhoto'') ''thumbnails'')) ''url''
          = Some (JStr [])"
    with b show "authorPhotoUrl msg = lit ''placeholder.png''"
      by (auto simp add: buildMessage_def Let_def bindF_Inr_iff orElse_def)
  }
next
  assume "rd (qdot (Some badgeItem) ''liveChatAuthorBadgeRenderer'') ''tooltip'' = Some (JStr [])
      \<and> badgeOf badgeItem = Inr imgs"
  then show "\<forall>b\<in>set imgs. badgeAlt b = lit ''Badge''"
    by (auto simp add: badgeOf_def Let_def orElse_def bindF_Inr_iff split: if_splits)
next
  assume "rd (qdot (Some badgeItem) ''liveChatAuthorBadgeRenderer'') ''tooltip'' = Some (JStr [])
      \<and> truthy (qdot (qat0 (qdot (qdot (qdot (Some badgeItem) ''liveChatAuthorBadgeRenderer'')
                  ''customThumbnail'') ''thumbnails'')) ''url'')
      \<and> toString (qdot (qat0 (qdot (qdot (qdot (Some badgeItem) ''liveChatAuthorBadgeRenderer'')
                  ''customThumbnail'') ''thumbnails'')) ''url'') = Inr src"
  then show "badgeOf badgeItem = Inr [\<lparr>badgeSrc = src, badgeAlt = lit ''Badge''\<rparr>]"
    by (simp add: badgeOf_def Let_def orElse_def)
next
  assume t: "qdot (Some run) ''text'' = Some (JStr [])"
  then have nn: "run \<noteq> JNull" by (cases run) simp_all
  from t have nt: "\<not> truthy (qdot (Some run) ''text'')" by simp
  note p = processRun_non_null [OF nn, of h]
  show "processRun h run \<noteq> Inr [TextNode []]"
    using p nt by (auto simp add: bindF_Inr_iff lit_def split: if_splits)
  {
    assume "\<not> truthy (qdot (Some run) ''emoji'')"
    then show "processRun h run = Inr []" using p nt by simp
  }
qed

theorem C10_truthiness_fallbacks_witness:
  "buildMessage pageHost
      (Some (JObj [(lit ''authorName'', JObj [(lit ''simpleText'', JStr [])]),
                   (lit ''timestampText'', JObj [(lit ''simpleText'', JStr [])]),
                   (lit ''authorPhoto'', JObj [(lit ''thumbnails'',
                      JArr [JObj [(lit ''url'', JStr [])]])]),
                   (lit ''authorBadges'', JArr [JObj [(lit ''liveChatAuthorBadgeRenderer'',
                      JObj [(lit ''customThumbnail'', JObj [(lit ''thumbnails'',
                               JArr [JObj [(lit ''url'', JStr (lit ''b.png''))]])]),
                            (lit ''tooltip'', JStr [])])]]),
                   (lit ''message'', JObj [(lit ''runs'', JArr [JObj [(lit ''text'', JStr [])]])])]))
      []
      (Some (JObj [(lit ''authorName'', JObj [(lit ''simpleText'', JStr [])]),
                   (lit ''timestampText'', JObj [(lit ''simpleText'', JStr [])]),
                   (lit ''authorPhoto'', JObj [(lit ''thumbnails'',
                      JArr [JObj [(lit ''url'', JStr [])]])]),
                   (lit ''authorBadges'', JArr [JObj [(lit ''liveChatAuthorBadgeRenderer'',
                      JObj [(lit ''customThumbnail'', JObj [(lit ''thumbnails'',
                               JArr [JObj [(lit ''url'', JStr (lit ''b.png''))]])]),
                            (lit ''tooltip'', JStr [])])]]),
                   (lit ''message'', JObj [(lit ''runs'', JArr [JObj [(lit ''text'', JStr [])]])])]))
      None
    = Inr \<lparr>messageTypeClass = [], authorPhotoUrl = lit ''placeholder.png'',
           timestampText = lit ''[no time]'', authorNameText = lit ''[unknown author]'',
           badgeImgs = [\<lparr>badgeSrc = lit ''b.png'', badgeAlt = lit ''Badge''\<rparr>],
           bodyDiv = []\<rparr>
   \<and> badgeOf (JObj [(lit ''liveChatAuthorBadgeRenderer'',
          JObj [(lit ''customThumbnail'', JObj [(lit ''thumbnails'',
                   JArr [JObj [(lit ''url'', JStr (lit ''b.png''))]])]),
                (lit ''tooltip'', JStr [])])])
     = Inr [\<lparr>badgeSrc = lit ''b.png'', badgeAlt = lit ''Badge''\<rparr>]
   \<and> qdot (Some (JObj [(lit ''text'', JStr [])])) ''text'' = Some (JStr [])
   \<and> processRun pageHost (JObj [(lit ''text'', JStr [])]) = Inr []"
proof -
  let ?badge = "JObj [(lit ''liveChatAuthorBadgeRenderer'',
          JObj [(lit ''customThumbnail'', JObj [(lit ''thumbnails'',
                   JArr [JObj [(lit ''url'', JStr (lit ''b.png''))]])]),
                (lit ''tooltip'', JStr [])])]"
  let ?rd = "Some (JObj [(lit ''authorName'', JObj [(lit ''simpleText'', JStr [])]),
                   (lit ''timestampText'', JObj [(lit ''simpleText'', JStr [])]),
                   (lit ''authorPhoto'', JObj [(lit ''thumbnails'',
                      JArr [JObj [(lit ''url'', JStr [])]])]),
                   (lit ''authorBadges'', JArr [?badge]),
                   (lit ''message'', JObj [(lit ''runs'', JArr [JObj [(lit ''text'', JStr [])]])])])"
  let ?msg = "\<lparr>messageTypeClass = [], authorPhotoUrl = lit ''placeholder.png'',
           timestampText = lit ''[no time]'', authorNameText = lit ''[unknown author]'',
           badgeImgs = [\<lparr>badgeSrc = lit ''b.png'', badgeAlt = lit ''Badge''\<rparr>],
           bodyDiv = []\<rparr>"
  let ?run = "JObj [(lit ''text'', JStr [])]"
  have bd: "badgeOf ?badge = Inr [\<lparr>badgeSrc = lit ''b.png'', badgeAlt = lit ''Badge''\<rparr>]"
    by (simp add: badgeOf_def rd_def orElse_def)
  have b: "buildMessage pageHost ?rd [] ?rd None = Inr ?msg"
    by (simp add: buildMessage_def headerBadges_def bd messageBody_def processMessageRuns_def
        processRun_def rd_def orElse_def isArray_def elements_def)
  have f: "qdot (rd ?rd ''authorName'') ''simpleText'' = Some (JStr [])"
    "qdot (rd ?rd ''timestampText'') ''simpleText'' = Some (JStr [])"
    "qdot (qat0 (qdot (rd ?rd ''authorPhoto'') ''thumbnails'')) ''url'' = Some (JStr [])"
    by (simp_all add: rd_def)
  have g: "truthy (qdot (qat0 (qdot (qdot (qdot (Some ?badge) ''liveChatAuthorBadgeRenderer'')
                  ''customThumbnail'') ''thumbnails'')) ''url'')"
    "toString (qdot (qat0 (qdot (qdot (qdot (Some ?badge) ''liveChatAuthorBadgeRenderer'')
                  ''customThumbnail'') ''thumbnails'')) ''url'') = Inr (lit ''b.png'')"
    "rd (qdot (Some ?badge) ''liveChatAuthorBadgeRenderer'') ''tooltip'' = Some (JStr [])"
    by (simp_all add: rd_def)
  have r: "qdot (Some ?run) ''text'' = Some (JStr [])" "\<not> truthy (qdot (Some ?run) ''emoji'')"
    by simp_all
  show ?thesis
    using C10_truthiness_fallbacks [of pageHost ?rd "[]" ?rd None ?msg ?badge
        "[\<lparr>badgeSrc = lit ''b.png'', badgeAlt = lit ''Badge''\<rparr>]" "lit ''b.png''" ?run]
      b bd f g r
    by simp
qed

end
